theory Spec2Isabelle
  imports Main
begin

section \<open>Data model\<close>

text \<open>
  The member-registration pass of the experimental analysis
  (\<^verbatim>\<open>libsolidity/experimental/analysis/TypeClassMemberRegistration.cpp\<close>) works on
  the shared \<^verbatim>\<open>Analysis\<close> object: it reads the annotations of the earlier
  \<^verbatim>\<open>TypeClassRegistration\<close> pass, asks the type system for types, writes its own
  global annotation (\<^verbatim>\<open>typeClassFunctions\<close> and \<^verbatim>\<open>operators\<close>) and reports to the
  error reporter. Every one of these is a field of the state record below; a C++
  exception is an element of \<open>Exception\<close>, returned together with the state reached when
  it was thrown.
\<close>

datatype TypeClass = TypeClass nat

datatype BuiltinClass = Integer | Mul | Add | Equal | Less | LessOrEqual | Greater | GreaterOrEqual

text \<open>
  Modelled from the spec: the \<^verbatim>\<open>Token\<close> enumeration of \<^verbatim>\<open>liblangutil/Token.h\<close> is not
  part of the sources at hand. The seven members the pass names keep their names; every
  other member of the enumeration is \<open>OtherToken\<close> with its name.
\<close>

datatype Token = Mul | Add | Equal | LessThan | LessThanOrEqual | GreaterThan | GreaterThanOrEqual
  | OtherToken string

text \<open>
  Modelled from the spec: the type representation (\<^verbatim>\<open>TypeSystem\<close>,
  \<^verbatim>\<open>TypeSystemHelpers\<close>) is not part of the sources at hand. The spec gives a type four
  shapes: primitive, function from a domain to a codomain, tuple of an ordered list of
  element types, and type variable. Only the two primitive types the pass names appear.
\<close>

datatype PrimitiveType = Integer | Bool

datatype Type =
    Primitive PrimitiveType
  | Function Type Type
  | Tuple "Type list"
  | TypeVariable nat

record TypeClassInfo =
  typeVariable :: Type

datatype SourceLocation = SourceLocation int int

record FunctionDefinition =
  name :: string
  location :: SourceLocation

text \<open>
  Modelled from the spec: the syntax tree and its visitor are not part of the sources at
  hand. A source unit is the list of its top-level declarations; the pass has a callback
  for type-class definitions only. The sub-nodes of a type-class definition are arbitrary
  nodes in the source (\<^verbatim>\<open>std::vector<ASTPointer<ASTNode>>\<close>), so a sub-node is either a
  function definition or some other node, on which the \<^verbatim>\<open>dynamic_cast\<close> yields null.
\<close>

datatype ASTNode = FunctionDefinitionNode FunctionDefinition | OtherNode

record TypeClassDefinition =
  nodeId :: nat
  typeVariableDeclaration :: string
  subNodes :: "ASTNode list"

datatype Declaration = TypeClassDefinitionNode TypeClassDefinition | OtherDeclaration

type_synonym SourceUnit = "Declaration list"

datatype Error = TypeError nat SourceLocation string

datatype Exception = InternalCompilerError | FatalError | OutOfRange

record Analysis =
  builtinClasses :: "BuiltinClass \<rightharpoonup> TypeClass"
  typeClass :: "nat \<rightharpoonup> TypeClass"
  typeClassInfo :: "TypeClass \<Rightarrow> TypeClassInfo"
  numTypeVariables :: nat
  typeClassFunctions :: "TypeClass \<rightharpoonup> (string \<rightharpoonup> Type)"
  operators :: "Token \<rightharpoonup> TypeClass \<times> string"
  errors :: "Error list"

type_synonym 'a result = "(Exception + 'a) \<times> Analysis"

section \<open>Collaborators\<close>

text \<open>
  Modelled from the spec: \<^verbatim>\<open>TypeSystem::type\<close> with no arguments builds a primitive
  type, \<^verbatim>\<open>TypeSystemHelpers::functionType\<close> a function type from domain and
  codomain, \<^verbatim>\<open>TypeSystemHelpers::tupleType\<close> a tuple type from its elements.
\<close>

definition primitive :: "PrimitiveType \<Rightarrow> Type" where
  "primitive p = Primitive p"

definition functionType :: "Type \<Rightarrow> Type \<Rightarrow> Type" where
  "functionType argType resultType = Function argType resultType"

definition tupleType :: "Type list \<Rightarrow> Type" where
  "tupleType elements = Tuple elements"

text \<open>
  Modelled from the spec: \<^verbatim>\<open>TypeSystem::freshTypeVariable\<close> allocates a fresh, globally
  unique type variable. The type system numbers its variables with a counter.
\<close>

definition freshTypeVariable :: "Analysis \<Rightarrow> Type \<times> Analysis" where
  "freshTypeVariable st =
     (TypeVariable (numTypeVariables st), st\<lparr>numTypeVariables := Suc (numTypeVariables st)\<rparr>)"

text \<open>
  Modelled from the spec: \<^verbatim>\<open>ErrorReporter::fatalTypeError\<close> pushes the diagnostic to the
  sink and unwinds the current traversal; \<^verbatim>\<open>ErrorReporter::hasErrors\<close> tells whether
  the sink holds a diagnostic.
\<close>

definition fatalTypeError :: "nat \<Rightarrow> SourceLocation \<Rightarrow> string \<Rightarrow> Analysis \<Rightarrow> 'a result" where
  "fatalTypeError errorId loc description st =
     (Inl FatalError, st\<lparr>errors := errors st @ [TypeError errorId loc description]\<rparr>)"

definition hasErrors :: "Analysis \<Rightarrow> bool" where
  "hasErrors st = (errors st \<noteq> [])"

text \<open>\<^verbatim>\<open>std::map::emplace\<close>: inserts unless the key is present; tells whether it inserted.\<close>

definition emplace :: "'k \<Rightarrow> 'v \<Rightarrow> ('k \<rightharpoonup> 'v) \<Rightarrow> ('k \<rightharpoonup> 'v) \<times> bool" where
  "emplace k v m = (case m k of None \<Rightarrow> (m(k \<mapsto> v), True) | Some _ \<Rightarrow> (m, False))"

text \<open>Sequencing of two statements: the second runs only if the first did not throw.\<close>

definition andThen :: "(Analysis \<Rightarrow> unit result) \<Rightarrow> (Analysis \<Rightarrow> unit result) \<Rightarrow> Analysis \<Rightarrow> unit result" where
  "andThen f g st = (case f st of (Inl e, st') \<Rightarrow> (Inl e, st') | (Inr _, st') \<Rightarrow> g st')"

section \<open>The constructor: builtin classes\<close>

text \<open>\<^verbatim>\<open>builtinClasses.at(_builtinClass)\<close> throws \<^verbatim>\<open>std::out_of_range\<close> on a missing key.\<close>

definition registeredTypeClass :: "BuiltinClass \<Rightarrow> Analysis \<Rightarrow> Exception + TypeClass" where
  "registeredTypeClass builtinClass st =
     (case builtinClasses st builtinClass of None \<Rightarrow> Inl OutOfRange | Some tc \<Rightarrow> Inr tc)"

definition defineConversion :: "BuiltinClass \<Rightarrow> PrimitiveType \<Rightarrow> string \<Rightarrow> Analysis \<Rightarrow> unit result" where
  "defineConversion builtinClass fromType functionName st =
     (case registeredTypeClass builtinClass st of
        Inl e \<Rightarrow> (Inl e, st)
      | Inr tc \<Rightarrow>
          (Inr (), st\<lparr>typeClassFunctions := (typeClassFunctions st)(tc \<mapsto>
             [functionName \<mapsto>
                functionType (primitive fromType) (typeVariable (typeClassInfo st tc))])\<rparr>))"

definition defineBinaryMonoidalOperator :: "BuiltinClass \<Rightarrow> Token \<Rightarrow> string \<Rightarrow> Analysis \<Rightarrow> unit result" where
  "defineBinaryMonoidalOperator builtinClass token functionName st =
     (case registeredTypeClass builtinClass st of
        Inl e \<Rightarrow> (Inl e, st)
      | Inr tc \<Rightarrow>
          (let typeVar = typeVariable (typeClassInfo st tc);
               st1 = st\<lparr>operators := fst (emplace token (tc, functionName) (operators st))\<rparr>
           in (Inr (), st1\<lparr>typeClassFunctions := (typeClassFunctions st1)(tc \<mapsto>
                 [functionName \<mapsto> functionType (tupleType [typeVar, typeVar]) typeVar])\<rparr>)))"

definition defineBinaryCompareOperator :: "BuiltinClass \<Rightarrow> Token \<Rightarrow> string \<Rightarrow> Analysis \<Rightarrow> unit result" where
  "defineBinaryCompareOperator builtinClass token functionName st =
     (case registeredTypeClass builtinClass st of
        Inl e \<Rightarrow> (Inl e, st)
      | Inr tc \<Rightarrow>
          (let typeVar = typeVariable (typeClassInfo st tc);
               st1 = st\<lparr>operators := fst (emplace token (tc, functionName) (operators st))\<rparr>
           in (Inr (), st1\<lparr>typeClassFunctions := (typeClassFunctions st1)(tc \<mapsto>
                 [functionName \<mapsto>
                    functionType (tupleType [typeVar, typeVar]) (primitive PrimitiveType.Bool)])\<rparr>)))"

definition TypeClassMemberRegistration :: "Analysis \<Rightarrow> unit result" where
  "TypeClassMemberRegistration =
     andThen (defineConversion BuiltinClass.Integer PrimitiveType.Integer ''fromInteger'')
    (andThen (defineBinaryMonoidalOperator BuiltinClass.Mul Token.Mul ''mul'')
    (andThen (defineBinaryMonoidalOperator BuiltinClass.Add Token.Add ''add'')
    (andThen (defineBinaryCompareOperator BuiltinClass.Equal Token.Equal ''eq'')
    (andThen (defineBinaryCompareOperator BuiltinClass.Less Token.LessThan ''lt'')
    (andThen (defineBinaryCompareOperator BuiltinClass.LessOrEqual Token.LessThanOrEqual ''leq'')
    (andThen (defineBinaryCompareOperator BuiltinClass.Greater Token.GreaterThan ''gt'')
             (defineBinaryCompareOperator BuiltinClass.GreaterOrEqual Token.GreaterThanOrEqual ''geq'')))))))"

section \<open>The visitor: user classes\<close>

definition asFunctionDefinition :: "ASTNode \<Rightarrow> FunctionDefinition option" where
  "asFunctionDefinition subNode =
     (case subNode of FunctionDefinitionNode f \<Rightarrow> Some f | OtherNode \<Rightarrow> None)"

text \<open>
  The two arguments of \<^verbatim>\<open>functionType(freshTypeVariable({}), freshTypeVariable({}))\<close>
  are evaluated in an order the language leaves to the compiler: \<open>leftFirst\<close> says
  whether the domain's variable is allocated first.
\<close>

definition freshFunctionType :: "bool \<Rightarrow> Analysis \<Rightarrow> Type \<times> Analysis" where
  "freshFunctionType leftFirst st =
     (let (a, st1) = freshTypeVariable st;
          (b, st2) = freshTypeVariable st1
      in (if leftFirst then functionType a b else functionType b a, st2))"

text \<open>The loop of \<^verbatim>\<open>endVisit\<close> over the sub-nodes, with the local map \<^verbatim>\<open>functionTypes\<close>.\<close>

fun collectFunctionTypes ::
  "bool \<Rightarrow> ASTNode list \<Rightarrow> (string \<rightharpoonup> Type) \<Rightarrow> Analysis \<Rightarrow> (string \<rightharpoonup> Type) result" where
  "collectFunctionTypes leftFirst [] functionTypes st = (Inr functionTypes, st)"
| "collectFunctionTypes leftFirst (subNode # rest) functionTypes st =
     (case asFunctionDefinition subNode of
        None \<Rightarrow> (Inl InternalCompilerError, st)
      | Some functionDefinition \<Rightarrow>
          (let (functionType, st1) = freshFunctionType leftFirst st;
               (functionTypes1, inserted) = emplace (name functionDefinition) functionType functionTypes
           in if \<not> inserted
              then fatalTypeError 3195 (location functionDefinition)
                     ''Function in type class declared multiple times.'' st1
              else collectFunctionTypes leftFirst rest functionTypes1 st1))"

text \<open>
  Modelled from the spec: visiting the declared type variable of the class does nothing
  in this pass, which has no callback for that kind of node.
\<close>

definition acceptTypeVariable :: "string \<Rightarrow> Analysis \<Rightarrow> Analysis" where
  "acceptTypeVariable v st = st"

definition endVisit :: "bool \<Rightarrow> TypeClassDefinition \<Rightarrow> Analysis \<Rightarrow> unit result" where
  "endVisit leftFirst typeClassDefinition st =
     (case typeClass st (nodeId typeClassDefinition) of
        None \<Rightarrow> (Inl InternalCompilerError, st)
      | Some tc \<Rightarrow>
          (case collectFunctionTypes leftFirst (subNodes typeClassDefinition) Map.empty
                  (acceptTypeVariable (typeVariableDeclaration typeClassDefinition) st) of
             (Inl e, st1) \<Rightarrow> (Inl e, st1)
           | (Inr functionTypes, st1) \<Rightarrow>
               (Inr (), st1\<lparr>typeClassFunctions := (typeClassFunctions st1)(tc \<mapsto> functionTypes)\<rparr>)))"

text \<open>
  Modelled from the spec: \<^verbatim>\<open>SourceUnit::accept\<close> walks the declarations top-down and
  calls the callback once per class declaration; a thrown exception ends the walk.
\<close>

fun accept :: "bool \<Rightarrow> SourceUnit \<Rightarrow> Analysis \<Rightarrow> unit result" where
  "accept leftFirst [] st = (Inr (), st)"
| "accept leftFirst (TypeClassDefinitionNode d # rest) st =
     (case endVisit leftFirst d st of
        (Inl e, st1) \<Rightarrow> (Inl e, st1)
      | (Inr _, st1) \<Rightarrow> accept leftFirst rest st1)"
| "accept leftFirst (OtherDeclaration # rest) st = accept leftFirst rest st"

definition analyze :: "bool \<Rightarrow> SourceUnit \<Rightarrow> Analysis \<Rightarrow> bool result" where
  "analyze leftFirst sourceUnit st =
     (case accept leftFirst sourceUnit st of
        (Inl e, st1) \<Rightarrow> (Inl e, st1)
      | (Inr _, st1) \<Rightarrow> (Inr (\<not> hasErrors st1), st1))"

section \<open>Auxiliary notions\<close>

text \<open>
  The pipeline's precondition on a class declaration: the earlier pass has assigned it
  a \<open>TypeClass\<close>, and each of its sub-nodes is a function definition.
\<close>

definition registered :: "Analysis \<Rightarrow> TypeClassDefinition \<Rightarrow> bool" where
  "registered st d \<longleftrightarrow>
     typeClass st (nodeId d) \<noteq> None \<and> list_all (\<lambda>n. asFunctionDefinition n \<noteq> None) (subNodes d)"

fun registeredAll :: "Analysis \<Rightarrow> SourceUnit \<Rightarrow> bool" where
  "registeredAll st [] = True"
| "registeredAll st (TypeClassDefinitionNode d # rest) = (registered st d \<and> registeredAll st rest)"
| "registeredAll st (OtherDeclaration # rest) = registeredAll st rest"

text \<open>
  The names of the member functions of a class declaration, in declaration order, and
  the source units in which no class declares a name twice.
\<close>

definition memberNames :: "TypeClassDefinition \<Rightarrow> string list" where
  "memberNames d = map name (List.map_filter asFunctionDefinition (subNodes d))"

fun duplicateFree :: "SourceUnit \<Rightarrow> bool" where
  "duplicateFree [] = True"
| "duplicateFree (TypeClassDefinitionNode d # rest) =
     (distinct (memberNames d) \<and> duplicateFree rest)"
| "duplicateFree (OtherDeclaration # rest) = duplicateFree rest"

text \<open>
  Two states that agree on what the constructor reads and writes: the builtin classes
  of the identity store, the classes' type variables, and the two tables.
\<close>

definition sameTables :: "Analysis \<Rightarrow> Analysis \<Rightarrow> bool" where
  "sameTables a b \<longleftrightarrow>
     builtinClasses a = builtinClasses b \<and> typeClassInfo a = typeClassInfo b \<and>
     typeClassFunctions a = typeClassFunctions b \<and> operators a = operators b"

definition tableDetermined :: "(Analysis \<Rightarrow> unit result) \<Rightarrow> bool" where
  "tableDetermined f \<longleftrightarrow>
     (\<forall>a b. sameTables a b \<longrightarrow> fst (f a) = fst (f b) \<and> sameTables (snd (f a)) (snd (f b)))"

section \<open>A concrete analysis run\<close>

text \<open>
  The state the earlier passes leave for a program with two user classes: the eight
  builtin classes are the type classes 0 to 7, the class declarations with node
  identifiers 10 and 11 are the type classes 8 and 9, the type variable of class \<open>n\<close>
  is variable \<open>n\<close>, ten type variables are allocated, and the annotation store of this
  pass and the error reporter are empty.
\<close>

definition exampleClasses :: "BuiltinClass \<Rightarrow> TypeClass" where
  "exampleClasses b =
     (case b of
        BuiltinClass.Integer \<Rightarrow> TypeClass 0
      | BuiltinClass.Mul \<Rightarrow> TypeClass 1
      | BuiltinClass.Add \<Rightarrow> TypeClass 2
      | BuiltinClass.Equal \<Rightarrow> TypeClass 3
      | BuiltinClass.Less \<Rightarrow> TypeClass 4
      | BuiltinClass.LessOrEqual \<Rightarrow> TypeClass 5
      | BuiltinClass.Greater \<Rightarrow> TypeClass 6
      | BuiltinClass.GreaterOrEqual \<Rightarrow> TypeClass 7)"

definition exampleAnalysis :: Analysis where
  "exampleAnalysis =
     \<lparr>builtinClasses = Some \<circ> exampleClasses,
      typeClass = [10 \<mapsto> TypeClass 8, 11 \<mapsto> TypeClass 9],
      typeClassInfo = (\<lambda>tc. case tc of TypeClass n \<Rightarrow> \<lparr>typeVariable = TypeVariable n\<rparr>),
      numTypeVariables = 10,
      typeClassFunctions = Map.empty,
      operators = Map.empty,
      errors = []\<rparr>"

text \<open>The state after the constructor has run on it.\<close>

definition bootedAnalysis :: Analysis where
  "bootedAnalysis = snd (TypeClassMemberRegistration exampleAnalysis)"

text \<open>
  Three class declarations: \<open>Show\<close> declares \<open>show\<close> twice, \<open>Ord\<close> declares \<open>cmp1\<close>
  and \<open>cmp2\<close>, and a third one declares \<open>f\<close> three times. A fourth declaration has
  no type class assigned, and a fifth has a sub-node that is no function definition.
\<close>

definition showClass :: TypeClassDefinition where
  "showClass =
     \<lparr>nodeId = 10, typeVariableDeclaration = ''a'',
      subNodes =
        [FunctionDefinitionNode \<lparr>name = ''show'', location = SourceLocation 20 30\<rparr>,
         FunctionDefinitionNode \<lparr>name = ''show'', location = SourceLocation 40 50\<rparr>]\<rparr>"

definition ordClass :: TypeClassDefinition where
  "ordClass =
     \<lparr>nodeId = 11, typeVariableDeclaration = ''a'',
      subNodes =
        [FunctionDefinitionNode \<lparr>name = ''cmp1'', location = SourceLocation 20 30\<rparr>,
         FunctionDefinitionNode \<lparr>name = ''cmp2'', location = SourceLocation 40 50\<rparr>]\<rparr>"

definition tripleClass :: TypeClassDefinition where
  "tripleClass =
     \<lparr>nodeId = 10, typeVariableDeclaration = ''a'',
      subNodes =
        [FunctionDefinitionNode \<lparr>name = ''f'', location = SourceLocation 1 2\<rparr>,
         FunctionDefinitionNode \<lparr>name = ''f'', location = SourceLocation 3 4\<rparr>,
         FunctionDefinitionNode \<lparr>name = ''f'', location = SourceLocation 5 6\<rparr>]\<rparr>"

definition strayClass :: TypeClassDefinition where
  "strayClass = \<lparr>nodeId = 12, typeVariableDeclaration = ''a'', subNodes = []\<rparr>"

definition oddClass :: TypeClassDefinition where
  "oddClass = \<lparr>nodeId = 11, typeVariableDeclaration = ''a'', subNodes = [OtherNode]\<rparr>"

section \<open>The constructor, run to its end\<close>

lemma defineConversion_total:
  assumes "builtinClasses st = Some \<circ> cls"
  shows "defineConversion b p n st =
      (Inr (), st\<lparr>typeClassFunctions := (typeClassFunctions st)(cls b \<mapsto>
             [n \<mapsto> functionType (primitive p) (typeVariable (typeClassInfo st (cls b)))])\<rparr>)"
  using assms by (simp add: defineConversion_def registeredTypeClass_def)

lemma defineBinaryMonoidalOperator_total:
  assumes "builtinClasses st = Some \<circ> cls"
  shows "defineBinaryMonoidalOperator b t n st =
      (Inr (), st\<lparr>typeClassFunctions := (typeClassFunctions st)(cls b \<mapsto>
             [n \<mapsto> functionType (tupleType [typeVariable (typeClassInfo st (cls b)),
                   typeVariable (typeClassInfo st (cls b))]) (typeVariable (typeClassInfo st (cls b)))]),
          operators := fst (emplace t (cls b, n) (operators st))\<rparr>)"
  using assms by (simp add: defineBinaryMonoidalOperator_def registeredTypeClass_def Let_def)

lemma defineBinaryCompareOperator_total:
  assumes "builtinClasses st = Some \<circ> cls"
  shows "defineBinaryCompareOperator b t n st =
      (Inr (), st\<lparr>typeClassFunctions := (typeClassFunctions st)(cls b \<mapsto>
             [n \<mapsto> functionType (tupleType [typeVariable (typeClassInfo st (cls b)),
                   typeVariable (typeClassInfo st (cls b))]) (primitive PrimitiveType.Bool)]),
          operators := fst (emplace t (cls b, n) (operators st))\<rparr>)"
  using assms by (simp add: defineBinaryCompareOperator_def registeredTypeClass_def Let_def)

text \<open>
  With every builtin class registered, no lookup throws, and the constructor's effect is
  eight assignments to \<open>typeClassFunctions\<close> and seven insertions into \<open>operators\<close>.
\<close>

lemma TypeClassMemberRegistration_total:
  assumes "builtinClasses st = Some \<circ> cls"
  shows "TypeClassMemberRegistration st =
    (Inr (), st\<lparr>
       typeClassFunctions := (typeClassFunctions st)
         (cls BuiltinClass.Integer \<mapsto> [''fromInteger'' \<mapsto> functionType (primitive PrimitiveType.Integer)
             (typeVariable (typeClassInfo st (cls BuiltinClass.Integer)))],
          cls BuiltinClass.Mul \<mapsto> [''mul'' \<mapsto> functionType
             (tupleType [typeVariable (typeClassInfo st (cls BuiltinClass.Mul)),
                         typeVariable (typeClassInfo st (cls BuiltinClass.Mul))])
             (typeVariable (typeClassInfo st (cls BuiltinClass.Mul)))],
          cls BuiltinClass.Add \<mapsto> [''add'' \<mapsto> functionType
             (tupleType [typeVariable (typeClassInfo st (cls BuiltinClass.Add)),
                         typeVariable (typeClassInfo st (cls BuiltinClass.Add))])
             (typeVariable (typeClassInfo st (cls BuiltinClass.Add)))],
          cls BuiltinClass.Equal \<mapsto> [''eq'' \<mapsto> functionType
             (tupleType [typeVariable (typeClassInfo st (cls BuiltinClass.Equal)),
                         typeVariable (typeClassInfo st (cls BuiltinClass.Equal))])
             (primitive PrimitiveType.Bool)],
          cls BuiltinClass.Less \<mapsto> [''lt'' \<mapsto> functionType
             (tupleType [typeVariable (typeClassInfo st (cls BuiltinClass.Less)),
                         typeVariable (typeClassInfo st (cls BuiltinClass.Less))])
             (primitive PrimitiveType.Bool)],
          cls BuiltinClass.LessOrEqual \<mapsto> [''leq'' \<mapsto> functionType
             (tupleType [typeVariable (typeClassInfo st (cls BuiltinClass.LessOrEqual)),
                         typeVariable (typeClassInfo st (cls BuiltinClass.LessOrEqual))])
             (primitive PrimitiveType.Bool)],
          cls BuiltinClass.Greater \<mapsto> [''gt'' \<mapsto> functionType
             (tupleType [typeVariable (typeClassInfo st (cls BuiltinClass.Greater)),
                         typeVariable (typeClassInfo st (cls BuiltinClass.Greater))])
             (primitive PrimitiveType.Bool)],
          cls BuiltinClass.GreaterOrEqual \<mapsto> [''geq'' \<mapsto> functionType
             (tupleType [typeVariable (typeClassInfo st (cls BuiltinClass.GreaterOrEqual)),
                         typeVariable (typeClassInfo st (cls BuiltinClass.GreaterOrEqual))])
             (primitive PrimitiveType.Bool)]),
       operators :=
         fst (emplace Token.GreaterThanOrEqual (cls BuiltinClass.GreaterOrEqual, ''geq'')
        (fst (emplace Token.GreaterThan (cls BuiltinClass.Greater, ''gt'')
        (fst (emplace Token.LessThanOrEqual (cls BuiltinClass.LessOrEqual, ''leq'')
        (fst (emplace Token.LessThan (cls BuiltinClass.Less, ''lt'')
        (fst (emplace Token.Equal (cls BuiltinClass.Equal, ''eq'')
        (fst (emplace Token.Add (cls BuiltinClass.Add, ''add'')
        (fst (emplace Token.Mul (cls BuiltinClass.Mul, ''mul'') (operators st))))))))))))))\<rparr>)"
  using assms
  by (simp add: TypeClassMemberRegistration_def andThen_def defineConversion_total
      defineBinaryMonoidalOperator_total defineBinaryCompareOperator_total)

lemma exampleAnalysis_builtinClasses: "builtinClasses exampleAnalysis = Some \<circ> exampleClasses"
  by (simp add: exampleAnalysis_def)

lemma inj_exampleClasses: "inj exampleClasses"
  by (auto simp: inj_def exampleClasses_def split: BuiltinClass.splits)

text \<open>
  C2. After the constructor has run on a fresh annotation store, the operator table has
  exactly seven bindings: multiply to (Mul class, "mul"), plus to (Add class, "add"),
  equal to (Equal class, "eq"), less-than to (Less class, "lt"), less-or-equal to
  (LessOrEqual class, "leq"), greater-than to (Greater class, "gt"), greater-or-equal
  to (GreaterOrEqual class, "geq"); no other token has a binding.
\<close>

theorem bootstrap_operators:
  assumes "builtinClasses st = Some \<circ> cls" and "operators st = Map.empty"
  shows "fst (TypeClassMemberRegistration st) = Inr () \<and>
     operators (snd (TypeClassMemberRegistration st)) =
       [Token.Mul \<mapsto> (cls BuiltinClass.Mul, ''mul''),
        Token.Add \<mapsto> (cls BuiltinClass.Add, ''add''),
        Token.Equal \<mapsto> (cls BuiltinClass.Equal, ''eq''),
        Token.LessThan \<mapsto> (cls BuiltinClass.Less, ''lt''),
        Token.LessThanOrEqual \<mapsto> (cls BuiltinClass.LessOrEqual, ''leq''),
        Token.GreaterThan \<mapsto> (cls BuiltinClass.Greater, ''gt''),
        Token.GreaterThanOrEqual \<mapsto> (cls BuiltinClass.GreaterOrEqual, ''geq'')] \<and>
     dom (operators (snd (TypeClassMemberRegistration st))) =
       {Token.Mul, Token.Add, Token.Equal, Token.LessThan, Token.LessThanOrEqual,
        Token.GreaterThan, Token.GreaterThanOrEqual}"
proof -
  have ops: "operators (snd (TypeClassMemberRegistration st)) =
       [Token.Mul \<mapsto> (cls BuiltinClass.Mul, ''mul''),
        Token.Add \<mapsto> (cls BuiltinClass.Add, ''add''),
        Token.Equal \<mapsto> (cls BuiltinClass.Equal, ''eq''),
        Token.LessThan \<mapsto> (cls BuiltinClass.Less, ''lt''),
        Token.LessThanOrEqual \<mapsto> (cls BuiltinClass.LessOrEqual, ''leq''),
        Token.GreaterThan \<mapsto> (cls BuiltinClass.Greater, ''gt''),
        Token.GreaterThanOrEqual \<mapsto> (cls BuiltinClass.GreaterOrEqual, ''geq'')]"
    using assms(2) by (simp add: TypeClassMemberRegistration_total [OF assms(1)] emplace_def)
  have ok: "fst (TypeClassMemberRegistration st) = Inr ()"
    by (simp add: TypeClassMemberRegistration_total [OF assms(1)])
  from ok ops show ?thesis
    by (simp only: dom_fun_upd dom_empty option.simps simp_thms if_False) blast
qed

theorem bootstrap_operators_witness:
  "builtinClasses exampleAnalysis = Some \<circ> exampleClasses \<and>
   operators exampleAnalysis = Map.empty \<and>
   fst (TypeClassMemberRegistration exampleAnalysis) = Inr () \<and>
   operators (snd (TypeClassMemberRegistration exampleAnalysis)) Token.LessThan
     = Some (TypeClass 4, ''lt'') \<and>
   operators (snd (TypeClassMemberRegistration exampleAnalysis)) (OtherToken ''Sub'') = None"
proof -
  have h: "operators exampleAnalysis = Map.empty"
    by (simp add: exampleAnalysis_def)
  show ?thesis
    using bootstrap_operators [OF exampleAnalysis_builtinClasses h] h
    by (simp add: exampleAnalysis_builtinClasses exampleClasses_def)
qed

text \<open>
  C3. After the constructor has run, each of the eight builtin classes has a member table
  with exactly one member: the integer-literal class maps "fromInteger" to a function
  from the primitive integer type to the class's own type variable; Mul and Add map
  "mul" and "add" to a function from the pair of the class's type variable with itself
  to that type variable; Equal, Less, LessOrEqual, Greater and GreaterOrEqual map "eq",
  "lt", "leq", "gt" and "geq" to a function from such a pair to the boolean type. The
  identity store gives the eight builtin classes eight different type classes.
\<close>

theorem bootstrap_member_tables:
  assumes "builtinClasses st = Some \<circ> cls" and "inj cls"
  shows "fst (TypeClassMemberRegistration st) = Inr () \<and>
    (let st' = snd (TypeClassMemberRegistration st);
         self = (\<lambda>b. typeVariable (typeClassInfo st (cls b)));
         pair = (\<lambda>b. tupleType [self b, self b])
     in typeClassFunctions st' (cls BuiltinClass.Integer) =
          Some [''fromInteger'' \<mapsto>
            functionType (primitive PrimitiveType.Integer) (self BuiltinClass.Integer)] \<and>
        typeClassFunctions st' (cls BuiltinClass.Mul) =
          Some [''mul'' \<mapsto> functionType (pair BuiltinClass.Mul) (self BuiltinClass.Mul)] \<and>
        typeClassFunctions st' (cls BuiltinClass.Add) =
          Some [''add'' \<mapsto> functionType (pair BuiltinClass.Add) (self BuiltinClass.Add)] \<and>
        typeClassFunctions st' (cls BuiltinClass.Equal) =
          Some [''eq'' \<mapsto> functionType (pair BuiltinClass.Equal) (primitive PrimitiveType.Bool)] \<and>
        typeClassFunctions st' (cls BuiltinClass.Less) =
          Some [''lt'' \<mapsto> functionType (pair BuiltinClass.Less) (primitive PrimitiveType.Bool)] \<and>
        typeClassFunctions st' (cls BuiltinClass.LessOrEqual) =
          Some [''leq'' \<mapsto> functionType (pair BuiltinClass.LessOrEqual) (primitive PrimitiveType.Bool)] \<and>
        typeClassFunctions st' (cls BuiltinClass.Greater) =
          Some [''gt'' \<mapsto> functionType (pair BuiltinClass.Greater) (primitive PrimitiveType.Bool)] \<and>
        typeClassFunctions st' (cls BuiltinClass.GreaterOrEqual) =
          Some [''geq'' \<mapsto> functionType (pair BuiltinClass.GreaterOrEqual) (primitive PrimitiveType.Bool)])"
  using assms(2) by (simp add: TypeClassMemberRegistration_total [OF assms(1)] inj_eq)

theorem bootstrap_member_tables_witness:
  "builtinClasses exampleAnalysis = Some \<circ> exampleClasses \<and> inj exampleClasses \<and>
   fst (TypeClassMemberRegistration exampleAnalysis) = Inr () \<and>
   typeClassFunctions (snd (TypeClassMemberRegistration exampleAnalysis)) (TypeClass 0) =
     Some [''fromInteger'' \<mapsto> Function (Primitive PrimitiveType.Integer) (TypeVariable 0)] \<and>
   typeClassFunctions (snd (TypeClassMemberRegistration exampleAnalysis)) (TypeClass 2) =
     Some [''add'' \<mapsto> Function (Tuple [TypeVariable 2, TypeVariable 2]) (TypeVariable 2)] \<and>
   typeClassFunctions (snd (TypeClassMemberRegistration exampleAnalysis)) (TypeClass 7) =
     Some [''geq'' \<mapsto> Function (Tuple [TypeVariable 7, TypeVariable 7]) (Primitive PrimitiveType.Bool)]"
proof -
  have i: "typeClassInfo exampleAnalysis (TypeClass n) = \<lparr>typeVariable = TypeVariable n\<rparr>" for n
    by (simp add: exampleAnalysis_def)
  show ?thesis
    using bootstrap_member_tables [OF exampleAnalysis_builtinClasses inj_exampleClasses]
    by (simp add: exampleAnalysis_builtinClasses inj_exampleClasses exampleClasses_def i
        functionType_def tupleType_def primitive_def Let_def)
qed

lemma tableDetermined_andThen:
  assumes "tableDetermined f" and "tableDetermined g"
  shows "tableDetermined (andThen f g)"
  unfolding tableDetermined_def
proof (intro allI impI)
  fix a b assume ab: "sameTables a b"
  from assms(1) ab have f: "fst (f a) = fst (f b)" "sameTables (snd (f a)) (snd (f b))"
    by (simp_all add: tableDetermined_def)
  from assms(2) f(2)
  have g: "fst (g (snd (f a))) = fst (g (snd (f b)))"
    "sameTables (snd (g (snd (f a)))) (snd (g (snd (f b))))"
    by (simp_all add: tableDetermined_def)
  show "fst (andThen f g a) = fst (andThen f g b) \<and>
        sameTables (snd (andThen f g a)) (snd (andThen f g b))"
    using f g by (cases "fst (f b)") (simp_all add: andThen_def split_beta)
qed

lemma tableDetermined_defineConversion: "tableDetermined (defineConversion b p n)"
  unfolding tableDetermined_def sameTables_def defineConversion_def registeredTypeClass_def
  by (auto split: option.splits)

lemma tableDetermined_defineBinaryMonoidalOperator:
  "tableDetermined (defineBinaryMonoidalOperator b t n)"
  unfolding tableDetermined_def sameTables_def defineBinaryMonoidalOperator_def
    registeredTypeClass_def
  by (auto simp: Let_def split: option.splits)

lemma tableDetermined_defineBinaryCompareOperator:
  "tableDetermined (defineBinaryCompareOperator b t n)"
  unfolding tableDetermined_def sameTables_def defineBinaryCompareOperator_def
    registeredTypeClass_def
  by (auto simp: Let_def split: option.splits)

lemma tableDetermined_TypeClassMemberRegistration: "tableDetermined TypeClassMemberRegistration"
  unfolding TypeClassMemberRegistration_def
  by (intro tableDetermined_andThen tableDetermined_defineConversion
      tableDetermined_defineBinaryMonoidalOperator tableDetermined_defineBinaryCompareOperator)

lemma emplace_map_add: "fst (emplace k v m) = [k \<mapsto> v] ++ m"
  by (auto simp: emplace_def map_add_def fun_eq_iff split: option.splits)

lemma map_add_twice: "m ++ n ++ n = m ++ n"
  by (simp add: map_add_def fun_eq_iff split: option.splits)

lemma map_add_twice_left: "n ++ (n ++ m) = n ++ m"
  by (simp add: map_add_def fun_eq_iff split: option.splits)

lemma TypeClassMemberRegistration_again:
  assumes "builtinClasses st = Some \<circ> cls"
  shows "typeClassFunctions (snd (TypeClassMemberRegistration (snd (TypeClassMemberRegistration st))))
     = typeClassFunctions (snd (TypeClassMemberRegistration st))
   \<and> operators (snd (TypeClassMemberRegistration (snd (TypeClassMemberRegistration st))))
     = operators (snd (TypeClassMemberRegistration st))"
proof -
  let ?st1 = "snd (TypeClassMemberRegistration st)"
  let ?st2 = "snd (TypeClassMemberRegistration ?st1)"
  note total = TypeClassMemberRegistration_total [where cls = cls]
  define E where "E = typeClassFunctions
    (snd (TypeClassMemberRegistration (st\<lparr>typeClassFunctions := Map.empty\<rparr>)))"
  define B where "B = operators (snd (TypeClassMemberRegistration (st\<lparr>operators := Map.empty\<rparr>)))"
  have b: "builtinClasses ?st1 = Some \<circ> cls" and i: "typeClassInfo ?st1 = typeClassInfo st"
    using assms by (simp_all add: total)
  have E: "typeClassFunctions (snd (TypeClassMemberRegistration s)) = typeClassFunctions s ++ E"
    if "builtinClasses s = Some \<circ> cls" "typeClassInfo s = typeClassInfo st" for s
    using that assms by (simp add: E_def total)
  have B: "operators (snd (TypeClassMemberRegistration s)) = B ++ operators s"
    if "builtinClasses s = Some \<circ> cls" for s
    using that assms by (simp add: B_def total emplace_map_add)
  have "typeClassFunctions ?st2 = typeClassFunctions st ++ E ++ E"
    by (simp only: E [OF b i] E [OF assms refl])
  moreover have "operators ?st2 = B ++ (B ++ operators st)"
    by (simp only: B [OF b] B [OF assms])
  ultimately show ?thesis
    by (simp only: E [OF assms refl] B [OF assms] map_add_twice map_add_twice_left)
qed

text \<open>
  C7. The constructor is deterministic: from two states with the same identity store,
  the same type variables of the classes and the same annotation store, it ends the
  same way and leaves the same member tables and the same operator table, whatever
  else differs between the states. Run a second time on its own result, it leaves
  both tables as they are.
\<close>

theorem bootstrap_deterministic:
  assumes "builtinClasses st1 = builtinClasses st2" and "typeClassInfo st1 = typeClassInfo st2"
    and "typeClassFunctions st1 = typeClassFunctions st2" and "operators st1 = operators st2"
  shows "fst (TypeClassMemberRegistration st1) = fst (TypeClassMemberRegistration st2) \<and>
     typeClassFunctions (snd (TypeClassMemberRegistration st1)) =
       typeClassFunctions (snd (TypeClassMemberRegistration st2)) \<and>
     operators (snd (TypeClassMemberRegistration st1)) =
       operators (snd (TypeClassMemberRegistration st2)) \<and>
     ((\<forall>b. builtinClasses st1 b \<noteq> None) \<longrightarrow>
       typeClassFunctions (snd (TypeClassMemberRegistration (snd (TypeClassMemberRegistration st1)))) =
         typeClassFunctions (snd (TypeClassMemberRegistration st1)) \<and>
       operators (snd (TypeClassMemberRegistration (snd (TypeClassMemberRegistration st1)))) =
         operators (snd (TypeClassMemberRegistration st1)))"
proof -
  have "sameTables st1 st2"
    using assms by (simp add: sameTables_def)
  with tableDetermined_TypeClassMemberRegistration
  have det: "fst (TypeClassMemberRegistration st1) = fst (TypeClassMemberRegistration st2) \<and>
      sameTables (snd (TypeClassMemberRegistration st1)) (snd (TypeClassMemberRegistration st2))"
    unfolding tableDetermined_def by blast
  have again: "typeClassFunctions (snd (TypeClassMemberRegistration (snd (TypeClassMemberRegistration st1)))) =
         typeClassFunctions (snd (TypeClassMemberRegistration st1)) \<and>
       operators (snd (TypeClassMemberRegistration (snd (TypeClassMemberRegistration st1)))) =
         operators (snd (TypeClassMemberRegistration st1))"
    if "\<forall>b. builtinClasses st1 b \<noteq> None"
  proof -
    from that have "builtinClasses st1 = Some \<circ> (\<lambda>b. the (builtinClasses st1 b))"
      by (auto simp: fun_eq_iff)
    then show ?thesis by (rule TypeClassMemberRegistration_again)
  qed
  from det again show ?thesis
    by (simp add: sameTables_def)
qed

theorem bootstrap_deterministic_witness:
  "(\<forall>b. builtinClasses exampleAnalysis b \<noteq> None) \<and>
   fst (TypeClassMemberRegistration exampleAnalysis) =
     fst (TypeClassMemberRegistration (exampleAnalysis\<lparr>numTypeVariables := 99, errors := [TypeError 1 (SourceLocation 0 0) ''x'']\<rparr>)) \<and>
   operators (snd (TypeClassMemberRegistration exampleAnalysis)) =
     operators (snd (TypeClassMemberRegistration (exampleAnalysis\<lparr>numTypeVariables := 99, errors := [TypeError 1 (SourceLocation 0 0) ''x'']\<rparr>))) \<and>
   typeClassFunctions (snd (TypeClassMemberRegistration exampleAnalysis)) =
     typeClassFunctions (snd (TypeClassMemberRegistration (exampleAnalysis\<lparr>numTypeVariables := 99, errors := [TypeError 1 (SourceLocation 0 0) ''x'']\<rparr>))) \<and>
   operators (snd (TypeClassMemberRegistration (snd (TypeClassMemberRegistration exampleAnalysis)))) =
     operators (snd (TypeClassMemberRegistration exampleAnalysis))"
proof -
  have h: "\<forall>b. builtinClasses exampleAnalysis b \<noteq> None"
    by (simp add: exampleAnalysis_builtinClasses)
  show ?thesis
    using h bootstrap_deterministic [of exampleAnalysis
        "exampleAnalysis\<lparr>numTypeVariables := 99, errors := [TypeError 1 (SourceLocation 0 0) ''x'']\<rparr>"]
    by simp
qed


section \<open>The loop over the members of a class\<close>

lemma freshFunctionType_fst:
  "fst (freshFunctionType leftFirst st) =
     (if leftFirst
      then functionType (TypeVariable (numTypeVariables st)) (TypeVariable (numTypeVariables st + 1))
      else functionType (TypeVariable (numTypeVariables st + 1)) (TypeVariable (numTypeVariables st)))"
  by (simp add: freshFunctionType_def freshTypeVariable_def)

lemma freshFunctionType_snd:
  "snd (freshFunctionType leftFirst st) = st\<lparr>numTypeVariables := numTypeVariables st + 2\<rparr>"
  by (simp add: freshFunctionType_def freshTypeVariable_def)

lemma collectFunctionTypes_function:
  "collectFunctionTypes lf (FunctionDefinitionNode f # rest) ft st =
     (if ft (name f) = None
      then collectFunctionTypes lf rest (ft(name f \<mapsto> fst (freshFunctionType lf st)))
             (st\<lparr>numTypeVariables := numTypeVariables st + 2\<rparr>)
      else (Inl FatalError,
            st\<lparr>numTypeVariables := numTypeVariables st + 2,
               errors := errors st @
                 [TypeError 3195 (location f) ''Function in type class declared multiple times.'']\<rparr>))"
  by (cases "ft (name f)")
     (simp_all add: asFunctionDefinition_def emplace_def split_beta fatalTypeError_def
        freshFunctionType_snd)

lemma collectFunctionTypes_other:
  "collectFunctionTypes lf (OtherNode # rest) ft st = (Inl InternalCompilerError, st)"
  by (simp add: asFunctionDefinition_def)

lemmas collectFunctionTypes_step =
  collectFunctionTypes.simps(1) collectFunctionTypes_function collectFunctionTypes_other

lemma collectFunctionTypes_frame:
  "builtinClasses (snd (collectFunctionTypes lf ns ft st)) = builtinClasses st \<and>
   typeClass (snd (collectFunctionTypes lf ns ft st)) = typeClass st \<and>
   typeClassInfo (snd (collectFunctionTypes lf ns ft st)) = typeClassInfo st \<and>
   typeClassFunctions (snd (collectFunctionTypes lf ns ft st)) = typeClassFunctions st \<and>
   operators (snd (collectFunctionTypes lf ns ft st)) = operators st"
proof (induction ns arbitrary: ft st)
  case Nil
  show ?case by simp
next
  case (Cons n ns)
  show ?case
    by (cases n) (simp_all only: collectFunctionTypes_step Cons.IH split: if_split, simp_all)
qed

lemma collectFunctionTypes_errors:
  "(fst (collectFunctionTypes lf ns ft st) = Inl FatalError \<and>
      (\<exists>e. errors (snd (collectFunctionTypes lf ns ft st)) = errors st @ [e])) \<or>
   (fst (collectFunctionTypes lf ns ft st) \<noteq> Inl FatalError \<and>
      errors (snd (collectFunctionTypes lf ns ft st)) = errors st)"
proof (induction ns arbitrary: ft st)
  case Nil
  show ?case by simp
next
  case (Cons n ns)
  show ?case
  proof (cases n)
    case (FunctionDefinitionNode f)
    let ?ft1 = "ft(name f \<mapsto> fst (freshFunctionType lf st))"
    let ?st1 = "st\<lparr>numTypeVariables := numTypeVariables st + 2\<rparr>"
    let ?r = "collectFunctionTypes lf ns ?ft1 ?st1"
    have "(fst ?r = Inl FatalError \<and> (\<exists>e. errors (snd ?r) = errors ?st1 @ [e])) \<or>
          (fst ?r \<noteq> Inl FatalError \<and> errors (snd ?r) = errors ?st1)"
      by (rule Cons.IH)
    then show ?thesis
      by (simp add: FunctionDefinitionNode collectFunctionTypes_function
          del: collectFunctionTypes.simps)
  next
    case OtherNode
    then show ?thesis by (simp only: collectFunctionTypes_other) simp
  qed
qed

lemma collectFunctionTypes_no_assert:
  "list_all (\<lambda>n. asFunctionDefinition n \<noteq> None) ns \<Longrightarrow>
   fst (collectFunctionTypes lf ns ft st) = Inl e \<Longrightarrow> e = FatalError"
proof (induction ns arbitrary: ft st)
  case Nil
  then show ?case by simp
next
  case (Cons n ns)
  show ?case
  proof (cases n)
    case (FunctionDefinitionNode f)
    let ?ft1 = "ft(name f \<mapsto> fst (freshFunctionType lf st))"
    let ?st1 = "st\<lparr>numTypeVariables := numTypeVariables st + 2\<rparr>"
    from Cons.prems(1) have "list_all (\<lambda>n. asFunctionDefinition n \<noteq> None) ns"
      by simp
    then have "fst (collectFunctionTypes lf ns ?ft1 ?st1) = Inl e \<Longrightarrow> e = FatalError"
      by (rule Cons.IH)
    with Cons.prems(2) show ?thesis
      by (simp add: FunctionDefinitionNode collectFunctionTypes_function
          del: collectFunctionTypes.simps split: if_splits)
  next
    case OtherNode
    with Cons.prems show ?thesis by (simp add: asFunctionDefinition_def)
  qed
qed

lemma collectFunctionTypes_distinct:
  assumes "distinct (map name fs)" and "set (map name fs) \<inter> dom ft = {}"
  shows "\<exists>ft'. collectFunctionTypes lf (map FunctionDefinitionNode fs) ft st =
           (Inr ft', st\<lparr>numTypeVariables := numTypeVariables st + 2 * length fs\<rparr>) \<and>
         dom ft' = dom ft \<union> set (map name fs) \<and>
         (\<forall>x \<in> dom ft. ft' x = ft x) \<and>
         (\<forall>i < length fs. ft' (name (fs ! i)) =
            Some (fst (freshFunctionType lf (st\<lparr>numTypeVariables := numTypeVariables st + 2 * i\<rparr>))))"
  using assms
proof (induction fs arbitrary: ft st)
  case Nil
  show ?case by simp
next
  case (Cons f fs)
  let ?t = "fst (freshFunctionType lf st)"
  let ?st1 = "st\<lparr>numTypeVariables := numTypeVariables st + 2\<rparr>"
  let ?ft1 = "ft(name f \<mapsto> ?t)"
  from Cons.prems have fresh: "ft (name f) = None" by auto
  from Cons.prems have "distinct (map name fs)" and "set (map name fs) \<inter> dom ?ft1 = {}"
    by auto
  then have "\<exists>ft'. collectFunctionTypes lf (map FunctionDefinitionNode fs) ?ft1 ?st1 =
           (Inr ft', ?st1\<lparr>numTypeVariables := numTypeVariables ?st1 + 2 * length fs\<rparr>) \<and>
         dom ft' = dom ?ft1 \<union> set (map name fs) \<and>
         (\<forall>x \<in> dom ?ft1. ft' x = ?ft1 x) \<and>
         (\<forall>i < length fs. ft' (name (fs ! i)) =
            Some (fst (freshFunctionType lf (?st1\<lparr>numTypeVariables := numTypeVariables ?st1 + 2 * i\<rparr>))))"
    by (rule Cons.IH)
  then obtain ft' where
    run: "collectFunctionTypes lf (map FunctionDefinitionNode fs) ?ft1 ?st1 =
           (Inr ft', ?st1\<lparr>numTypeVariables := numTypeVariables ?st1 + 2 * length fs\<rparr>)"
    and dom: "dom ft' = dom ?ft1 \<union> set (map name fs)"
    and old: "\<forall>x \<in> dom ?ft1. ft' x = ?ft1 x"
    and new: "\<forall>i < length fs. ft' (name (fs ! i)) =
            Some (fst (freshFunctionType lf (?st1\<lparr>numTypeVariables := numTypeVariables ?st1 + 2 * i\<rparr>)))"
    by blast
  have "collectFunctionTypes lf (map FunctionDefinitionNode (f # fs)) ft st =
           (Inr ft', st\<lparr>numTypeVariables := numTypeVariables st + 2 * length (f # fs)\<rparr>)"
    using fresh run by (simp add: collectFunctionTypes_function del: collectFunctionTypes.simps)
  moreover have "dom ft' = dom ft \<union> set (map name (f # fs))"
    using dom by auto
  moreover have "\<forall>x \<in> dom ft. ft' x = ft x"
    using old fresh by (auto simp: dom_def)
  moreover have "ft' (name ((f # fs) ! i)) =
      Some (fst (freshFunctionType lf (st\<lparr>numTypeVariables := numTypeVariables st + 2 * i\<rparr>)))"
    if "i < length (f # fs)" for i
  proof (cases i)
    case 0
    from old have "ft' (name f) = ?ft1 (name f)" by simp
    with 0 show ?thesis by simp
  next
    case (Suc j)
    with that new show ?thesis by (simp add: freshFunctionType_fst)
  qed
  ultimately show ?case by blast
qed

lemma collectFunctionTypes_duplicate:
  assumes "distinct (map name pre)" and "set (map name pre) \<inter> dom ft = {}"
    and "name f \<in> set (map name pre) \<union> dom ft"
  shows "collectFunctionTypes lf (map FunctionDefinitionNode (pre @ f # post)) ft st =
           (Inl FatalError,
            st\<lparr>numTypeVariables := numTypeVariables st + 2 * Suc (length pre),
               errors := errors st @
                 [TypeError 3195 (location f) ''Function in type class declared multiple times.'']\<rparr>)"
  using assms
proof (induction pre arbitrary: ft st)
  case Nil
  then obtain t where "ft (name f) = Some t" by auto
  then show ?case
    by (simp add: collectFunctionTypes_function del: collectFunctionTypes.simps)
next
  case (Cons g pre)
  let ?st1 = "st\<lparr>numTypeVariables := numTypeVariables st + 2\<rparr>"
  let ?ft1 = "ft(name g \<mapsto> fst (freshFunctionType lf st))"
  from Cons.prems have fresh: "ft (name g) = None" by auto
  from Cons.prems have "distinct (map name pre)" and "set (map name pre) \<inter> dom ?ft1 = {}"
    and "name f \<in> set (map name pre) \<union> dom ?ft1"
    by auto
  then have "collectFunctionTypes lf (map FunctionDefinitionNode (pre @ f # post)) ?ft1 ?st1 =
           (Inl FatalError,
            ?st1\<lparr>numTypeVariables := numTypeVariables ?st1 + 2 * Suc (length pre),
               errors := errors ?st1 @
                 [TypeError 3195 (location f) ''Function in type class declared multiple times.'']\<rparr>)"
    by (rule Cons.IH)
  with fresh show ?case
    by (simp add: collectFunctionTypes_function del: collectFunctionTypes.simps)
qed

lemma not_distinct_names:
  "\<not> distinct (map name fs) \<Longrightarrow>
   \<exists>pre f post. fs = pre @ f # post \<and> distinct (map name pre) \<and> name f \<in> set (map name pre)"
proof (induction fs rule: rev_induct)
  case Nil
  then show ?case by simp
next
  case (snoc f fs)
  show ?case
  proof (cases "distinct (map name fs)")
    case True
    with snoc.prems have "name f \<in> set (map name fs)" by auto
    with True have "fs @ [f] = fs @ f # [] \<and> distinct (map name fs) \<and> name f \<in> set (map name fs)"
      by simp
    then show ?thesis by (intro exI)
  next
    case False
    then obtain pre g post where "fs = pre @ g # post" and d: "distinct (map name pre)"
      and g: "name g \<in> set (map name pre)"
      using snoc.IH by blast
    then have "fs @ [f] = pre @ g # (post @ [f])" by simp
    with d g show ?thesis by (intro exI conjI)
  qed
qed

section \<open>One class declaration\<close>

lemma endVisit_registered:
  assumes "typeClass st (nodeId d) = Some tc"
  shows "endVisit lf d st =
     (case collectFunctionTypes lf (subNodes d) Map.empty st of
        (Inl e, st1) \<Rightarrow> (Inl e, st1)
      | (Inr functionTypes, st1) \<Rightarrow>
          (Inr (), st1\<lparr>typeClassFunctions := (typeClassFunctions st1)(tc \<mapsto> functionTypes)\<rparr>))"
  using assms by (simp add: endVisit_def acceptTypeVariable_def)

lemma endVisit_unregistered:
  assumes "typeClass st (nodeId d) = None"
  shows "endVisit lf d st = (Inl InternalCompilerError, st)"
  using assms by (simp add: endVisit_def)

lemma endVisit_distinct_run:
  assumes "typeClass st (nodeId d) = Some tc" and "subNodes d = map FunctionDefinitionNode fs"
    and "distinct (map name fs)"
  shows "\<exists>table. endVisit lf d st =
           (Inr (), st\<lparr>numTypeVariables := numTypeVariables st + 2 * length fs,
                       typeClassFunctions := (typeClassFunctions st)(tc \<mapsto> table)\<rparr>) \<and>
         dom table = set (map name fs) \<and>
         (\<forall>i < length fs. table (name (fs ! i)) =
            Some (fst (freshFunctionType lf (st\<lparr>numTypeVariables := numTypeVariables st + 2 * i\<rparr>))))"
proof -
  from assms(3) have "set (map name fs) \<inter> dom (Map.empty :: string \<rightharpoonup> Type) = {}"
    by simp
  with assms(3) have "\<exists>ft'. collectFunctionTypes lf (map FunctionDefinitionNode fs) Map.empty st =
           (Inr ft', st\<lparr>numTypeVariables := numTypeVariables st + 2 * length fs\<rparr>) \<and>
         dom ft' = dom (Map.empty :: string \<rightharpoonup> Type) \<union> set (map name fs) \<and>
         (\<forall>x \<in> dom (Map.empty :: string \<rightharpoonup> Type). ft' x = Map.empty x) \<and>
         (\<forall>i < length fs. ft' (name (fs ! i)) =
            Some (fst (freshFunctionType lf (st\<lparr>numTypeVariables := numTypeVariables st + 2 * i\<rparr>))))"
    by (rule collectFunctionTypes_distinct)
  then obtain table where
    run: "collectFunctionTypes lf (map FunctionDefinitionNode fs) Map.empty st =
           (Inr table, st\<lparr>numTypeVariables := numTypeVariables st + 2 * length fs\<rparr>)"
    and dom: "dom table = set (map name fs)"
    and new: "\<forall>i < length fs. table (name (fs ! i)) =
            Some (fst (freshFunctionType lf (st\<lparr>numTypeVariables := numTypeVariables st + 2 * i\<rparr>)))"
    by auto
  have "endVisit lf d st =
           (Inr (), st\<lparr>numTypeVariables := numTypeVariables st + 2 * length fs,
                       typeClassFunctions := (typeClassFunctions st)(tc \<mapsto> table)\<rparr>)"
    by (simp add: endVisit_registered [OF assms(1)] assms(2) run)
  with dom new show ?thesis by blast
qed

lemma endVisit_duplicate_run:
  assumes "typeClass st (nodeId d) = Some tc"
    and "subNodes d = map FunctionDefinitionNode (pre @ f # post)"
    and "distinct (map name pre)" and "name f \<in> set (map name pre)"
  shows "endVisit lf d st =
           (Inl FatalError,
            st\<lparr>numTypeVariables := numTypeVariables st + 2 * Suc (length pre),
               errors := errors st @
                 [TypeError 3195 (location f) ''Function in type class declared multiple times.'']\<rparr>)"
proof -
  from assms(3, 4)
  have "collectFunctionTypes lf (map FunctionDefinitionNode (pre @ f # post)) Map.empty st =
           (Inl FatalError,
            st\<lparr>numTypeVariables := numTypeVariables st + 2 * Suc (length pre),
               errors := errors st @
                 [TypeError 3195 (location f) ''Function in type class declared multiple times.'']\<rparr>)"
    by (intro collectFunctionTypes_duplicate) simp_all
  then show ?thesis
    by (simp add: endVisit_registered [OF assms(1)] assms(2))
qed

lemma endVisit_frame_fields:
  "builtinClasses (snd (endVisit lf d st)) = builtinClasses st \<and>
   typeClass (snd (endVisit lf d st)) = typeClass st \<and>
   typeClassInfo (snd (endVisit lf d st)) = typeClassInfo st \<and>
   operators (snd (endVisit lf d st)) = operators st"
proof (cases "typeClass st (nodeId d)")
  case None
  then show ?thesis by (simp add: endVisit_unregistered)
next
  case (Some tc)
  obtain r st1 where r: "collectFunctionTypes lf (subNodes d) Map.empty st = (r, st1)"
    by (cases "collectFunctionTypes lf (subNodes d) Map.empty st")
  with collectFunctionTypes_frame [of lf "subNodes d" Map.empty st]
  have "builtinClasses st1 = builtinClasses st \<and> typeClass st1 = typeClass st \<and>
        typeClassInfo st1 = typeClassInfo st \<and> operators st1 = operators st"
    by simp
  with r show ?thesis
    by (cases r) (simp_all add: endVisit_registered [OF Some])
qed

lemma endVisit_typeClassFunctions:
  "(fst (endVisit lf d st) = Inr () \<and>
      (\<exists>tc table. typeClass st (nodeId d) = Some tc \<and>
         typeClassFunctions (snd (endVisit lf d st)) = (typeClassFunctions st)(tc \<mapsto> table))) \<or>
   (fst (endVisit lf d st) \<noteq> Inr () \<and>
      typeClassFunctions (snd (endVisit lf d st)) = typeClassFunctions st)"
proof (cases "typeClass st (nodeId d)")
  case None
  then show ?thesis by (simp add: endVisit_unregistered)
next
  case (Some tc)
  obtain r st1 where r: "collectFunctionTypes lf (subNodes d) Map.empty st = (r, st1)"
    by (cases "collectFunctionTypes lf (subNodes d) Map.empty st")
  with collectFunctionTypes_frame [of lf "subNodes d" Map.empty st]
  have "typeClassFunctions st1 = typeClassFunctions st"
    by simp
  with r Some show ?thesis
    by (cases r) (auto simp add: endVisit_registered [OF Some])
qed

lemma endVisit_errors:
  "(fst (endVisit lf d st) = Inl FatalError \<and>
      (\<exists>e. errors (snd (endVisit lf d st)) = errors st @ [e])) \<or>
   (fst (endVisit lf d st) \<noteq> Inl FatalError \<and> errors (snd (endVisit lf d st)) = errors st)"
proof (cases "typeClass st (nodeId d)")
  case None
  then show ?thesis by (simp add: endVisit_unregistered)
next
  case (Some tc)
  obtain r st1 where r: "collectFunctionTypes lf (subNodes d) Map.empty st = (r, st1)"
    by (cases "collectFunctionTypes lf (subNodes d) Map.empty st")
  with collectFunctionTypes_errors [of lf "subNodes d" Map.empty st]
  have "(r = Inl FatalError \<and> (\<exists>e. errors st1 = errors st @ [e])) \<or>
        (r \<noteq> Inl FatalError \<and> errors st1 = errors st)"
    by simp
  with r show ?thesis
    by (cases r) (auto simp add: endVisit_registered [OF Some])
qed

lemma endVisit_no_assert:
  assumes "registered st d" and "fst (endVisit lf d st) = Inl e"
  shows "e = FatalError"
proof -
  from assms(1) obtain tc where tc: "typeClass st (nodeId d) = Some tc"
    and fs: "list_all (\<lambda>n. asFunctionDefinition n \<noteq> None) (subNodes d)"
    by (auto simp: registered_def)
  obtain r st1 where r: "collectFunctionTypes lf (subNodes d) Map.empty st = (r, st1)"
    by (cases "collectFunctionTypes lf (subNodes d) Map.empty st")
  with assms(2) have "fst (collectFunctionTypes lf (subNodes d) Map.empty st) = Inl e"
    by (cases r) (simp_all add: endVisit_registered [OF tc])
  with fs show ?thesis by (rule collectFunctionTypes_no_assert)
qed

section \<open>The traversal of a source unit\<close>

lemma registeredAll_cong:
  "typeClass st1 = typeClass st \<Longrightarrow> registeredAll st1 su = registeredAll st su"
  by (induction st su rule: registeredAll.induct) (simp_all add: registered_def)

lemma accept_operators: "operators (snd (accept lf su st)) = operators st"
proof (induction su arbitrary: st)
  case Nil
  show ?case by simp
next
  case (Cons decl su)
  show ?case
  proof (cases decl)
    case (TypeClassDefinitionNode d)
    obtain r st1 where r: "endVisit lf d st = (r, st1)"
      by (cases "endVisit lf d st")
    with endVisit_frame_fields [of lf d st] have "operators st1 = operators st"
      by simp
    with r Cons.IH [of st1] show ?thesis
      by (cases r) (simp_all add: TypeClassDefinitionNode)
  next
    case OtherDeclaration
    with Cons.IH show ?thesis by simp
  qed
qed

lemma accept_errors:
  "(fst (accept lf su st) = Inl FatalError \<and>
      (\<exists>e. errors (snd (accept lf su st)) = errors st @ [e])) \<or>
   (fst (accept lf su st) \<noteq> Inl FatalError \<and> errors (snd (accept lf su st)) = errors st)"
proof (induction su arbitrary: st)
  case Nil
  show ?case by simp
next
  case (Cons decl su)
  show ?case
  proof (cases decl)
    case (TypeClassDefinitionNode d)
    obtain r st1 where r: "endVisit lf d st = (r, st1)"
      by (cases "endVisit lf d st")
    with endVisit_errors [of lf d st]
    have "(r = Inl FatalError \<and> (\<exists>e. errors st1 = errors st @ [e])) \<or>
          (r \<noteq> Inl FatalError \<and> errors st1 = errors st)"
      by simp
    with r Cons.IH [of st1] show ?thesis
      by (cases r) (auto simp add: TypeClassDefinitionNode)
  next
    case OtherDeclaration
    with Cons.IH show ?thesis by simp
  qed
qed

lemma accept_no_assert:
  "registeredAll st su \<Longrightarrow> fst (accept lf su st) = Inl e \<Longrightarrow> e = FatalError"
proof (induction su arbitrary: st)
  case Nil
  then show ?case by simp
next
  case (Cons decl su)
  show ?case
  proof (cases decl)
    case (TypeClassDefinitionNode d)
    obtain r st1 where r: "endVisit lf d st = (r, st1)"
      by (cases "endVisit lf d st")
    from Cons.prems(1) have d: "registered st d" and su: "registeredAll st su"
      by (simp_all add: TypeClassDefinitionNode)
    from r endVisit_frame_fields [of lf d st] have "typeClass st1 = typeClass st"
      by simp
    then have "registeredAll st1 su = registeredAll st su"
      by (rule registeredAll_cong)
    with su have su1: "registeredAll st1 su"
      by simp
    show ?thesis
    proof (cases r)
      case (Inl e')
      with r have "fst (endVisit lf d st) = Inl e'"
        by simp
      with d have "e' = FatalError"
        by (rule endVisit_no_assert)
      moreover from Inl r Cons.prems(2) have "e = e'"
        by (simp add: TypeClassDefinitionNode)
      ultimately show ?thesis by simp
    next
      case (Inr u)
      with r Cons.prems(2) have "fst (accept lf su st1) = Inl e"
        by (simp add: TypeClassDefinitionNode)
      with su1 show ?thesis by (rule Cons.IH)
    qed
  next
    case OtherDeclaration
    with Cons.prems have "registeredAll st su" and "fst (accept lf su st) = Inl e"
      by simp_all
    then show ?thesis by (rule Cons.IH)
  qed
qed

section \<open>Properties of the user-class visitor\<close>

lemma bootedAnalysis_fields:
  "typeClass bootedAnalysis = [10 \<mapsto> TypeClass 8, 11 \<mapsto> TypeClass 9]"
  "numTypeVariables bootedAnalysis = 10"
  "errors bootedAnalysis = []"
  "typeClassFunctions bootedAnalysis (TypeClass 8) = None"
  "typeClassFunctions bootedAnalysis (TypeClass 9) = None"
  unfolding bootedAnalysis_def TypeClassMemberRegistration_total [OF exampleAnalysis_builtinClasses]
  by (simp_all add: exampleAnalysis_def exampleClasses_def)

lemma example_registered:
  "typeClass bootedAnalysis (nodeId showClass) = Some (TypeClass 8)"
  "typeClass bootedAnalysis (nodeId ordClass) = Some (TypeClass 9)"
  "typeClass bootedAnalysis (nodeId tripleClass) = Some (TypeClass 8)"
  "typeClass bootedAnalysis (nodeId strayClass) = None"
  by (simp_all add: bootedAnalysis_fields showClass_def ordClass_def tripleClass_def
      strayClass_def)

text \<open>
  C4. A class declaration whose member functions have pairwise distinct names is
  processed without error, and the table stored for its type class has exactly one
  entry per declared name. The entry of the member at position \<open>i\<close> is a function type
  whose domain and codomain are the two type variables allocated for that member, the
  variables numbered \<open>n + 2 i\<close> and \<open>n + 2 i + 1\<close> where \<open>n\<close> is the counter before the
  class is processed: they differ from each other, were not allocated before, and no
  variable occurs in the entries of two members.
\<close>

theorem endVisit_distinct_members:
  assumes "typeClass st (nodeId d) = Some tc"
    and "subNodes d = map FunctionDefinitionNode fs"
    and "distinct (map name fs)"
  shows "fst (endVisit lf d st) = Inr () \<and>
    (\<exists>table. typeClassFunctions (snd (endVisit lf d st)) tc = Some table \<and>
       dom table = set (map name fs) \<and> card (dom table) = length fs \<and>
       (\<forall>i < length fs. \<exists>a b.
          table (name (fs ! i)) = Some (functionType (TypeVariable a) (TypeVariable b)) \<and>
          a \<noteq> b \<and> numTypeVariables st \<le> a \<and> numTypeVariables st \<le> b \<and>
          {a, b} = {numTypeVariables st + 2 * i, numTypeVariables st + 2 * i + 1}) \<and>
       (\<forall>i < length fs. \<forall>j < length fs. \<forall>a b c e.
          i \<noteq> j \<and>
          table (name (fs ! i)) = Some (functionType (TypeVariable a) (TypeVariable b)) \<and>
          table (name (fs ! j)) = Some (functionType (TypeVariable c) (TypeVariable e)) \<longrightarrow>
          {a, b} \<inter> {c, e} = {}))"
proof -
  let ?n = "numTypeVariables st"
  from endVisit_distinct_run [OF assms, of lf] obtain table where
    run: "endVisit lf d st =
           (Inr (), st\<lparr>numTypeVariables := ?n + 2 * length fs,
                       typeClassFunctions := (typeClassFunctions st)(tc \<mapsto> table)\<rparr>)"
    and dom: "dom table = set (map name fs)"
    and new: "\<forall>i < length fs. table (name (fs ! i)) =
            Some (fst (freshFunctionType lf (st\<lparr>numTypeVariables := ?n + 2 * i\<rparr>)))"
    by blast
  have entry: "table (name (fs ! i)) =
      Some (if lf then functionType (TypeVariable (?n + 2 * i)) (TypeVariable (?n + 2 * i + 1))
            else functionType (TypeVariable (?n + 2 * i + 1)) (TypeVariable (?n + 2 * i)))"
    if "i < length fs" for i
    using new that by (simp add: freshFunctionType_fst)
  have ok: "fst (endVisit lf d st) = Inr ()"
    and stored: "typeClassFunctions (snd (endVisit lf d st)) tc = Some table"
    by (simp_all add: run)
  have card: "card (dom table) = length fs"
    using dom assms(3) distinct_card [of "map name fs"] by simp
  have within: "\<exists>a b.
          table (name (fs ! i)) = Some (functionType (TypeVariable a) (TypeVariable b)) \<and>
          a \<noteq> b \<and> ?n \<le> a \<and> ?n \<le> b \<and> {a, b} = {?n + 2 * i, ?n + 2 * i + 1}"
    if "i < length fs" for i
  proof (cases lf)
    case True
    with entry [OF that]
    have "table (name (fs ! i)) =
        Some (functionType (TypeVariable (?n + 2 * i)) (TypeVariable (?n + 2 * i + 1))) \<and>
      ?n + 2 * i \<noteq> ?n + 2 * i + 1 \<and> ?n \<le> ?n + 2 * i \<and> ?n \<le> ?n + 2 * i + 1 \<and>
      {?n + 2 * i, ?n + 2 * i + 1} = {?n + 2 * i, ?n + 2 * i + 1}"
      by simp
    then show ?thesis by (intro exI)
  next
    case False
    with entry [OF that]
    have "table (name (fs ! i)) =
        Some (functionType (TypeVariable (?n + 2 * i + 1)) (TypeVariable (?n + 2 * i))) \<and>
      ?n + 2 * i + 1 \<noteq> ?n + 2 * i \<and> ?n \<le> ?n + 2 * i + 1 \<and> ?n \<le> ?n + 2 * i \<and>
      {?n + 2 * i + 1, ?n + 2 * i} = {?n + 2 * i, ?n + 2 * i + 1}"
      by (simp add: insert_commute)
    then show ?thesis by (intro exI)
  qed
  have across: "{a, b} \<inter> {c, e} = {}"
    if "i < length fs" "j < length fs" "i \<noteq> j"
      "table (name (fs ! i)) = Some (functionType (TypeVariable a) (TypeVariable b))"
      "table (name (fs ! j)) = Some (functionType (TypeVariable c) (TypeVariable e))"
    for i j a b c e
  proof -
    from entry [OF that(1)] that(4) have ab: "{a, b} = {?n + 2 * i, ?n + 2 * i + 1}"
      by (auto simp: functionType_def split: if_splits)
    from entry [OF that(2)] that(5) have ce: "{c, e} = {?n + 2 * j, ?n + 2 * j + 1}"
      by (auto simp: functionType_def split: if_splits)
    from that(3) have "{?n + 2 * i, ?n + 2 * i + 1} \<inter> {?n + 2 * j, ?n + 2 * j + 1} = {}"
      by auto
    with ab ce show ?thesis by simp
  qed
  from dom card within across have
    "typeClassFunctions (snd (endVisit lf d st)) tc = Some table \<and>
       dom table = set (map name fs) \<and> card (dom table) = length fs \<and>
       (\<forall>i < length fs. \<exists>a b.
          table (name (fs ! i)) = Some (functionType (TypeVariable a) (TypeVariable b)) \<and>
          a \<noteq> b \<and> ?n \<le> a \<and> ?n \<le> b \<and> {a, b} = {?n + 2 * i, ?n + 2 * i + 1}) \<and>
       (\<forall>i < length fs. \<forall>j < length fs. \<forall>a b c e.
          i \<noteq> j \<and>
          table (name (fs ! i)) = Some (functionType (TypeVariable a) (TypeVariable b)) \<and>
          table (name (fs ! j)) = Some (functionType (TypeVariable c) (TypeVariable e)) \<longrightarrow>
          {a, b} \<inter> {c, e} = {})"
    using stored by blast
  with ok show ?thesis by blast
qed

theorem endVisit_distinct_members_witness:
  "typeClass bootedAnalysis (nodeId ordClass) = Some (TypeClass 9) \<and>
   subNodes ordClass = map FunctionDefinitionNode
     [\<lparr>name = ''cmp1'', location = SourceLocation 20 30\<rparr>,
      \<lparr>name = ''cmp2'', location = SourceLocation 40 50\<rparr>] \<and>
   distinct (map name
     [\<lparr>name = ''cmp1'', location = SourceLocation 20 30\<rparr>,
      \<lparr>name = ''cmp2'', location = SourceLocation 40 50\<rparr>]) \<and>
   fst (endVisit True ordClass bootedAnalysis) = Inr () \<and>
   (\<exists>table. typeClassFunctions (snd (endVisit True ordClass bootedAnalysis)) (TypeClass 9) =
        Some table \<and>
      dom table = {''cmp1'', ''cmp2''} \<and> card (dom table) = 2)"
proof -
  let ?fs = "[\<lparr>name = ''cmp1'', location = SourceLocation 20 30\<rparr>,
              \<lparr>name = ''cmp2'', location = SourceLocation 40 50\<rparr>]"
  have h1: "typeClass bootedAnalysis (nodeId ordClass) = Some (TypeClass 9)"
    by (simp add: example_registered)
  have h2: "subNodes ordClass = map FunctionDefinitionNode ?fs"
    by (simp add: ordClass_def)
  have h3: "distinct (map name ?fs)"
    by simp
  from endVisit_distinct_members [OF h1 h2 h3, of True] obtain table where
    "fst (endVisit True ordClass bootedAnalysis) = Inr ()"
    "typeClassFunctions (snd (endVisit True ordClass bootedAnalysis)) (TypeClass 9) = Some table"
    "dom table = set (map name ?fs)" "card (dom table) = length ?fs"
    by blast
  then have "fst (endVisit True ordClass bootedAnalysis) = Inr () \<and>
   (\<exists>table. typeClassFunctions (snd (endVisit True ordClass bootedAnalysis)) (TypeClass 9) =
        Some table \<and>
      dom table = {''cmp1'', ''cmp2''} \<and> card (dom table) = 2)"
    by simp
  with h1 h2 h3 show ?thesis by (intro conjI) simp_all
qed

text \<open>
  C10. Each member the loop visits costs two type variables, allocated before the name
  is looked up: one iteration advances the counter by two whether the name is new to
  the table or not; a class with distinct member names advances it by twice the number
  of members; a class with a duplicate advances it by two for each member up to and
  including the first one whose name repeats an earlier name.
\<close>

theorem endVisit_two_variables_per_member:
  assumes "typeClass st (nodeId d) = Some tc" and "subNodes d = map FunctionDefinitionNode fs"
  shows "(distinct (map name fs) \<longrightarrow>
            numTypeVariables (snd (endVisit lf d st)) = numTypeVariables st + 2 * length fs) \<and>
         (\<forall>pre f post.
            fs = pre @ f # post \<and> distinct (map name pre) \<and> name f \<in> set (map name pre) \<longrightarrow>
            fst (endVisit lf d st) = Inl FatalError \<and>
            numTypeVariables (snd (endVisit lf d st)) =
              numTypeVariables st + 2 * (length pre + 1)) \<and>
         (\<forall>f ft. numTypeVariables (snd (collectFunctionTypes lf [FunctionDefinitionNode f] ft st)) =
            numTypeVariables st + 2)"
proof (intro conjI allI impI)
  assume "distinct (map name fs)"
  with assms endVisit_distinct_run [of st d tc fs lf] obtain table where
    "endVisit lf d st =
       (Inr (), st\<lparr>numTypeVariables := numTypeVariables st + 2 * length fs,
                   typeClassFunctions := (typeClassFunctions st)(tc \<mapsto> table)\<rparr>)"
    by blast
  then show "numTypeVariables (snd (endVisit lf d st)) = numTypeVariables st + 2 * length fs"
    by simp
next
  fix pre f post
  assume "fs = pre @ f # post \<and> distinct (map name pre) \<and> name f \<in> set (map name pre)"
  with assms have run: "endVisit lf d st =
           (Inl FatalError,
            st\<lparr>numTypeVariables := numTypeVariables st + 2 * Suc (length pre),
               errors := errors st @
                 [TypeError 3195 (location f) ''Function in type class declared multiple times.'']\<rparr>)"
    by (intro endVisit_duplicate_run) simp_all
  show "fst (endVisit lf d st) = Inl FatalError"
    by (simp add: run)
  show "numTypeVariables (snd (endVisit lf d st)) = numTypeVariables st + 2 * (length pre + 1)"
    by (simp add: run)
next
  fix f ft
  show "numTypeVariables (snd (collectFunctionTypes lf [FunctionDefinitionNode f] ft st)) =
          numTypeVariables st + 2"
    by (simp add: collectFunctionTypes_function del: collectFunctionTypes.simps(2))
qed

theorem endVisit_two_variables_per_member_witness:
  "typeClass bootedAnalysis (nodeId ordClass) = Some (TypeClass 9) \<and>
   numTypeVariables (snd (endVisit True ordClass bootedAnalysis)) = 14 \<and>
   typeClass bootedAnalysis (nodeId tripleClass) = Some (TypeClass 8) \<and>
   fst (endVisit True tripleClass bootedAnalysis) = Inl FatalError \<and>
   numTypeVariables (snd (endVisit True tripleClass bootedAnalysis)) = 14"
proof -
  let ?c1 = "\<lparr>name = ''cmp1'', location = SourceLocation 20 30\<rparr>"
  let ?c2 = "\<lparr>name = ''cmp2'', location = SourceLocation 40 50\<rparr>"
  let ?f1 = "\<lparr>name = ''f'', location = SourceLocation 1 2\<rparr>"
  let ?f2 = "\<lparr>name = ''f'', location = SourceLocation 3 4\<rparr>"
  let ?f3 = "\<lparr>name = ''f'', location = SourceLocation 5 6\<rparr>"
  have o1: "typeClass bootedAnalysis (nodeId ordClass) = Some (TypeClass 9)"
    and t1: "typeClass bootedAnalysis (nodeId tripleClass) = Some (TypeClass 8)"
    by (simp_all add: example_registered)
  have o2: "subNodes ordClass = map FunctionDefinitionNode [?c1, ?c2]"
    by (simp add: ordClass_def)
  have t2: "subNodes tripleClass = map FunctionDefinitionNode [?f1, ?f2, ?f3]"
    by (simp add: tripleClass_def)
  have "distinct (map name [?c1, ?c2])"
    by simp
  with endVisit_two_variables_per_member [OF o1 o2, of True]
  have a: "numTypeVariables (snd (endVisit True ordClass bootedAnalysis)) = 14"
    by (simp add: bootedAnalysis_fields)
  have "[?f1, ?f2, ?f3] = [?f1] @ ?f2 # [?f3] \<and> distinct (map name [?f1]) \<and>
        name ?f2 \<in> set (map name [?f1])"
    by simp
  with endVisit_two_variables_per_member [OF t1 t2, of True]
  have "fst (endVisit True tripleClass bootedAnalysis) = Inl FatalError \<and>
        numTypeVariables (snd (endVisit True tripleClass bootedAnalysis)) =
          numTypeVariables bootedAnalysis + 2 * (length [?f1] + 1)"
    by blast
  then have b: "fst (endVisit True tripleClass bootedAnalysis) = Inl FatalError \<and>
        numTypeVariables (snd (endVisit True tripleClass bootedAnalysis)) = 14"
    by (simp add: bootedAnalysis_fields)
  from o1 t1 a b show ?thesis by simp
qed

text \<open>
  C9. When two members of a class share a name, the fatal diagnostic unwinds
  \<^verbatim>\<open>endVisit\<close> before the assignment to \<^verbatim>\<open>typeClassFunctions\<close>: the member tables of
  the annotation store are what they were, for the class's own type class too.
\<close>

theorem endVisit_duplicate_stores_nothing:
  assumes "typeClass st (nodeId d) = Some tc" and "subNodes d = map FunctionDefinitionNode fs"
    and "\<not> distinct (map name fs)"
  shows "fst (endVisit lf d st) = Inl FatalError \<and>
         typeClassFunctions (snd (endVisit lf d st)) = typeClassFunctions st \<and>
         typeClassFunctions (snd (endVisit lf d st)) tc = typeClassFunctions st tc"
proof -
  from assms(3) obtain pre f post where "fs = pre @ f # post" "distinct (map name pre)"
    "name f \<in> set (map name pre)"
    using not_distinct_names by blast
  with assms(1, 2) have "endVisit lf d st =
           (Inl FatalError,
            st\<lparr>numTypeVariables := numTypeVariables st + 2 * Suc (length pre),
               errors := errors st @
                 [TypeError 3195 (location f) ''Function in type class declared multiple times.'']\<rparr>)"
    by (intro endVisit_duplicate_run) simp_all
  then show ?thesis by simp
qed

theorem endVisit_duplicate_stores_nothing_witness:
  "typeClass bootedAnalysis (nodeId showClass) = Some (TypeClass 8) \<and>
   subNodes showClass = map FunctionDefinitionNode
     [\<lparr>name = ''show'', location = SourceLocation 20 30\<rparr>,
      \<lparr>name = ''show'', location = SourceLocation 40 50\<rparr>] \<and>
   \<not> distinct (map name
     [\<lparr>name = ''show'', location = SourceLocation 20 30\<rparr>,
      \<lparr>name = ''show'', location = SourceLocation 40 50\<rparr>]) \<and>
   fst (endVisit True showClass bootedAnalysis) = Inl FatalError \<and>
   typeClassFunctions (snd (endVisit True showClass bootedAnalysis)) (TypeClass 8) = None"
proof -
  let ?fs = "[\<lparr>name = ''show'', location = SourceLocation 20 30\<rparr>,
              \<lparr>name = ''show'', location = SourceLocation 40 50\<rparr>]"
  have h1: "typeClass bootedAnalysis (nodeId showClass) = Some (TypeClass 8)"
    by (simp add: example_registered)
  have h2: "subNodes showClass = map FunctionDefinitionNode ?fs"
    by (simp add: showClass_def)
  have h3: "\<not> distinct (map name ?fs)"
    by simp
  from endVisit_duplicate_stores_nothing [OF h1 h2 h3, of True]
  have "fst (endVisit True showClass bootedAnalysis) = Inl FatalError \<and>
        typeClassFunctions (snd (endVisit True showClass bootedAnalysis)) (TypeClass 8) = None"
    by (simp add: bootedAnalysis_fields)
  with h1 h2 h3 show ?thesis by (intro conjI) simp_all
qed

text \<open>
  C1, as stated, fails. The class \<open>Show\<close> declares \<open>show\<close> twice: processing it raises
  the fatal diagnostic, and afterwards the annotation store has no member table for the
  type class of \<open>Show\<close>. The third class declares \<open>f\<close> three times: the one
  diagnostic is located at the second declaration, not at the last.
\<close>

theorem duplicate_member_counterexample:
  "typeClass bootedAnalysis (nodeId showClass) = Some (TypeClass 8) \<and>
   fst (endVisit True showClass bootedAnalysis) = Inl FatalError \<and>
   typeClassFunctions (snd (endVisit True showClass bootedAnalysis)) (TypeClass 8) = None \<and>
   typeClass bootedAnalysis (nodeId tripleClass) = Some (TypeClass 8) \<and>
   errors (snd (endVisit True tripleClass bootedAnalysis)) =
     [TypeError 3195 (SourceLocation 3 4) ''Function in type class declared multiple times.''] \<and>
   location \<lparr>name = ''f'', location = SourceLocation 5 6\<rparr> \<noteq> SourceLocation 3 4"
proof -
  let ?s1 = "\<lparr>name = ''show'', location = SourceLocation 20 30\<rparr>"
  let ?s2 = "\<lparr>name = ''show'', location = SourceLocation 40 50\<rparr>"
  let ?f1 = "\<lparr>name = ''f'', location = SourceLocation 1 2\<rparr>"
  let ?f2 = "\<lparr>name = ''f'', location = SourceLocation 3 4\<rparr>"
  let ?f3 = "\<lparr>name = ''f'', location = SourceLocation 5 6\<rparr>"
  have "subNodes showClass = map FunctionDefinitionNode ([?s1] @ ?s2 # [])"
    by (simp add: showClass_def)
  with example_registered(1)
  have "endVisit True showClass bootedAnalysis =
     (Inl FatalError,
      bootedAnalysis\<lparr>numTypeVariables := numTypeVariables bootedAnalysis + 2 * Suc (length [?s1]),
         errors := errors bootedAnalysis @
           [TypeError 3195 (location ?s2) ''Function in type class declared multiple times.'']\<rparr>)"
    by (rule endVisit_duplicate_run) simp_all
  then have s: "fst (endVisit True showClass bootedAnalysis) = Inl FatalError \<and>
      typeClassFunctions (snd (endVisit True showClass bootedAnalysis)) (TypeClass 8) = None"
    by (simp add: bootedAnalysis_fields)
  have "subNodes tripleClass = map FunctionDefinitionNode ([?f1] @ ?f2 # [?f3])"
    by (simp add: tripleClass_def)
  with example_registered(3)
  have "endVisit True tripleClass bootedAnalysis =
     (Inl FatalError,
      bootedAnalysis\<lparr>numTypeVariables := numTypeVariables bootedAnalysis + 2 * Suc (length [?f1]),
         errors := errors bootedAnalysis @
           [TypeError 3195 (location ?f2) ''Function in type class declared multiple times.'']\<rparr>)"
    by (rule endVisit_duplicate_run) simp_all
  then have t: "errors (snd (endVisit True tripleClass bootedAnalysis)) =
     [TypeError 3195 (SourceLocation 3 4) ''Function in type class declared multiple times.'']"
    by (simp add: bootedAnalysis_fields)
  from s t example_registered(1, 3) show ?thesis by simp
qed

text \<open>
  C1, amended. For a class declaration in which two or more member functions share a
  name, processing raises exactly one fatal "declared multiple times" diagnostic,
  located at the first member, in declaration order, whose name repeats the name of an
  earlier member. The table built from the members before it holds each of them with its
  own function type, and the insertion that finds the duplicate leaves that table as it
  is. Processing unwinds there: no member table is stored for the class.
\<close>

theorem endVisit_duplicate_diagnostic:
  assumes "typeClass st (nodeId d) = Some tc" and "subNodes d = map FunctionDefinitionNode fs"
    and "\<not> distinct (map name fs)"
  shows "\<exists>pre f post.
     fs = pre @ f # post \<and> distinct (map name pre) \<and> name f \<in> set (map name pre) \<and>
     fst (endVisit lf d st) = Inl FatalError \<and>
     errors (snd (endVisit lf d st)) = errors st @
       [TypeError 3195 (location f) ''Function in type class declared multiple times.''] \<and>
     typeClassFunctions (snd (endVisit lf d st)) = typeClassFunctions st \<and>
     (\<exists>ft st1.
        collectFunctionTypes lf (map FunctionDefinitionNode pre) Map.empty st = (Inr ft, st1) \<and>
        (\<forall>i < length pre. ft (name (pre ! i)) =
           Some (fst (freshFunctionType lf (st\<lparr>numTypeVariables := numTypeVariables st + 2 * i\<rparr>)))) \<and>
        (\<forall>t. emplace (name f) t ft = (ft, False)))"
proof -
  from assms(3) obtain pre f post where fs: "fs = pre @ f # post"
    and pre: "distinct (map name pre)" and f: "name f \<in> set (map name pre)"
    using not_distinct_names by blast
  with assms(1, 2) have run: "endVisit lf d st =
           (Inl FatalError,
            st\<lparr>numTypeVariables := numTypeVariables st + 2 * Suc (length pre),
               errors := errors st @
                 [TypeError 3195 (location f) ''Function in type class declared multiple times.'']\<rparr>)"
    by (intro endVisit_duplicate_run) simp_all
  from pre have "set (map name pre) \<inter> dom (Map.empty :: string \<rightharpoonup> Type) = {}"
    by simp
  with pre have "\<exists>ft'. collectFunctionTypes lf (map FunctionDefinitionNode pre) Map.empty st =
           (Inr ft', st\<lparr>numTypeVariables := numTypeVariables st + 2 * length pre\<rparr>) \<and>
         dom ft' = dom (Map.empty :: string \<rightharpoonup> Type) \<union> set (map name pre) \<and>
         (\<forall>x \<in> dom (Map.empty :: string \<rightharpoonup> Type). ft' x = Map.empty x) \<and>
         (\<forall>i < length pre. ft' (name (pre ! i)) =
            Some (fst (freshFunctionType lf (st\<lparr>numTypeVariables := numTypeVariables st + 2 * i\<rparr>))))"
    by (rule collectFunctionTypes_distinct)
  then obtain ft where
    before: "collectFunctionTypes lf (map FunctionDefinitionNode pre) Map.empty st =
           (Inr ft, st\<lparr>numTypeVariables := numTypeVariables st + 2 * length pre\<rparr>)"
    and dom: "dom ft = set (map name pre)"
    and entries: "\<forall>i < length pre. ft (name (pre ! i)) =
            Some (fst (freshFunctionType lf (st\<lparr>numTypeVariables := numTypeVariables st + 2 * i\<rparr>)))"
    by auto
  from f dom have "name f \<in> dom ft" by simp
  then have kept: "\<forall>t. emplace (name f) t ft = (ft, False)"
    by (auto simp: emplace_def)
  from before entries kept have
    "\<exists>ft st1.
        collectFunctionTypes lf (map FunctionDefinitionNode pre) Map.empty st = (Inr ft, st1) \<and>
        (\<forall>i < length pre. ft (name (pre ! i)) =
           Some (fst (freshFunctionType lf (st\<lparr>numTypeVariables := numTypeVariables st + 2 * i\<rparr>)))) \<and>
        (\<forall>t. emplace (name f) t ft = (ft, False))"
    by blast
  moreover have "fst (endVisit lf d st) = Inl FatalError"
    and "errors (snd (endVisit lf d st)) = errors st @
       [TypeError 3195 (location f) ''Function in type class declared multiple times.'']"
    and "typeClassFunctions (snd (endVisit lf d st)) = typeClassFunctions st"
    by (simp_all add: run)
  ultimately show ?thesis using fs pre f by blast
qed

theorem endVisit_duplicate_diagnostic_witness:
  "typeClass bootedAnalysis (nodeId tripleClass) = Some (TypeClass 8) \<and>
   subNodes tripleClass = map FunctionDefinitionNode
     [\<lparr>name = ''f'', location = SourceLocation 1 2\<rparr>,
      \<lparr>name = ''f'', location = SourceLocation 3 4\<rparr>,
      \<lparr>name = ''f'', location = SourceLocation 5 6\<rparr>] \<and>
   \<not> distinct (map name
     [\<lparr>name = ''f'', location = SourceLocation 1 2\<rparr>,
      \<lparr>name = ''f'', location = SourceLocation 3 4\<rparr>,
      \<lparr>name = ''f'', location = SourceLocation 5 6\<rparr>]) \<and>
   fst (endVisit True tripleClass bootedAnalysis) = Inl FatalError \<and>
   errors (snd (endVisit True tripleClass bootedAnalysis)) =
     [TypeError 3195 (SourceLocation 3 4) ''Function in type class declared multiple times.''] \<and>
   typeClassFunctions (snd (endVisit True tripleClass bootedAnalysis)) =
     typeClassFunctions bootedAnalysis"
proof -
  let ?f1 = "\<lparr>name = ''f'', location = SourceLocation 1 2\<rparr>"
  let ?f2 = "\<lparr>name = ''f'', location = SourceLocation 3 4\<rparr>"
  let ?f3 = "\<lparr>name = ''f'', location = SourceLocation 5 6\<rparr>"
  let ?fs = "[?f1, ?f2, ?f3]"
  have h1: "typeClass bootedAnalysis (nodeId tripleClass) = Some (TypeClass 8)"
    by (simp add: example_registered)
  have h2: "subNodes tripleClass = map FunctionDefinitionNode ?fs"
    by (simp add: tripleClass_def)
  have h3: "\<not> distinct (map name ?fs)"
    by simp
  from endVisit_duplicate_diagnostic [OF h1 h2 h3, of True]
  obtain pre post and f :: FunctionDefinition where
    split: "?fs = pre @ f # post" and pre: "distinct (map name pre)"
    and f: "name f \<in> set (map name pre)"
    and res: "fst (endVisit True tripleClass bootedAnalysis) = Inl FatalError"
    "errors (snd (endVisit True tripleClass bootedAnalysis)) = errors bootedAnalysis @
       [TypeError 3195 (location f) ''Function in type class declared multiple times.'']"
    "typeClassFunctions (snd (endVisit True tripleClass bootedAnalysis)) =
       typeClassFunctions bootedAnalysis"
    by blast
  from f obtain p pre' where p: "pre = p # pre'"
    by (cases pre) auto
  have "f = ?f2"
  proof (cases pre')
    case Nil
    with split p show ?thesis by simp
  next
    case (Cons q pre'')
    with split p have "p = ?f1" and "q = ?f2" by simp_all
    with pre p Cons show ?thesis by simp
  qed
  with res have "fst (endVisit True tripleClass bootedAnalysis) = Inl FatalError \<and>
   errors (snd (endVisit True tripleClass bootedAnalysis)) =
     [TypeError 3195 (SourceLocation 3 4) ''Function in type class declared multiple times.''] \<and>
   typeClassFunctions (snd (endVisit True tripleClass bootedAnalysis)) =
     typeClassFunctions bootedAnalysis"
    by (simp add: bootedAnalysis_fields)
  with h1 h2 h3 show ?thesis by (intro conjI) simp_all
qed

text \<open>
  C8. If the class declaration has a type class assigned and each of its sub-nodes is a
  function definition, \<^verbatim>\<open>endVisit\<close> either returns or unwinds with the fatal
  diagnostic of a duplicate member: neither assertion fails. And when an assertion does
  fail, nothing has been reported to the error reporter.
\<close>

theorem endVisit_assertions_unreachable:
  "(typeClass st (nodeId d) \<noteq> None \<and>
      list_all (\<lambda>n. asFunctionDefinition n \<noteq> None) (subNodes d) \<longrightarrow>
      fst (endVisit lf d st) = Inr () \<or> fst (endVisit lf d st) = Inl FatalError) \<and>
   (fst (endVisit lf d st) = Inl InternalCompilerError \<longrightarrow>
      errors (snd (endVisit lf d st)) = errors st)"
proof (intro conjI impI)
  assume "typeClass st (nodeId d) \<noteq> None \<and>
      list_all (\<lambda>n. asFunctionDefinition n \<noteq> None) (subNodes d)"
  then have reg: "registered st d"
    by (simp add: registered_def)
  show "fst (endVisit lf d st) = Inr () \<or> fst (endVisit lf d st) = Inl FatalError"
  proof (cases "fst (endVisit lf d st)")
    case (Inl e)
    with reg have "e = FatalError" by (rule endVisit_no_assert)
    with Inl show ?thesis by simp
  next
    case (Inr u)
    then show ?thesis by simp
  qed
next
  assume "fst (endVisit lf d st) = Inl InternalCompilerError"
  with endVisit_errors [of lf d st] show "errors (snd (endVisit lf d st)) = errors st"
    by auto
qed

theorem endVisit_assertions_unreachable_witness:
  "typeClass bootedAnalysis (nodeId ordClass) \<noteq> None \<and>
   list_all (\<lambda>n. asFunctionDefinition n \<noteq> None) (subNodes ordClass) \<and>
   (fst (endVisit True ordClass bootedAnalysis) = Inr () \<or>
    fst (endVisit True ordClass bootedAnalysis) = Inl FatalError) \<and>
   fst (endVisit True strayClass bootedAnalysis) = Inl InternalCompilerError \<and>
   errors (snd (endVisit True strayClass bootedAnalysis)) = errors bootedAnalysis"
proof -
  have h: "typeClass bootedAnalysis (nodeId ordClass) \<noteq> None \<and>
      list_all (\<lambda>n. asFunctionDefinition n \<noteq> None) (subNodes ordClass)"
    by (simp add: example_registered) (simp add: ordClass_def asFunctionDefinition_def)
  have s: "fst (endVisit True strayClass bootedAnalysis) = Inl InternalCompilerError"
    by (simp add: endVisit_unregistered example_registered)
  from h s endVisit_assertions_unreachable [of bootedAnalysis ordClass True]
    endVisit_assertions_unreachable [of bootedAnalysis strayClass True]
  show ?thesis by blast
qed

lemma analyze_accept:
  "fst (analyze lf su st) =
     (case fst (accept lf su st) of Inl e \<Rightarrow> Inl e
      | Inr u \<Rightarrow> Inr (\<not> hasErrors (snd (accept lf su st)))) \<and>
   snd (analyze lf su st) = snd (accept lf su st)"
  by (cases "accept lf su st") (simp add: analyze_def split: sum.splits)

lemma ordClass_run:
  "\<exists>table. endVisit True ordClass bootedAnalysis =
     (Inr (), bootedAnalysis\<lparr>numTypeVariables := 14,
        typeClassFunctions := (typeClassFunctions bootedAnalysis)(TypeClass 9 \<mapsto> table)\<rparr>)"
proof -
  let ?fs = "[\<lparr>name = ''cmp1'', location = SourceLocation 20 30\<rparr>,
              \<lparr>name = ''cmp2'', location = SourceLocation 40 50\<rparr>]"
  have "subNodes ordClass = map FunctionDefinitionNode ?fs"
    by (simp add: ordClass_def)
  moreover have "distinct (map name ?fs)"
    by simp
  ultimately obtain table where "endVisit True ordClass bootedAnalysis =
           (Inr (), bootedAnalysis\<lparr>numTypeVariables := numTypeVariables bootedAnalysis + 2 * length ?fs,
              typeClassFunctions := (typeClassFunctions bootedAnalysis)(TypeClass 9 \<mapsto> table)\<rparr>)"
    using endVisit_distinct_run [OF example_registered(2), of ?fs True] by blast
  then have "endVisit True ordClass bootedAnalysis =
     (Inr (), bootedAnalysis\<lparr>numTypeVariables := 14,
        typeClassFunctions := (typeClassFunctions bootedAnalysis)(TypeClass 9 \<mapsto> table)\<rparr>)"
    by (simp add: bootedAnalysis_fields)
  then show ?thesis by (intro exI)
qed

text \<open>
  C6. Processing a class declaration leaves the operator table as it is and changes the
  member table of no type class but the one assigned to the declaration; on success the
  member tables are the old ones with the entry of that type class replaced. In
  particular, when no builtin class is the declaration's type class, the member table
  of every builtin class is unchanged. A whole run of \<^verbatim>\<open>analyze\<close> leaves the operator
  table as the constructor built it.
\<close>

theorem endVisit_frame:
  "operators (snd (endVisit lf d st)) = operators st \<and>
   (\<forall>tc'. typeClass st (nodeId d) \<noteq> Some tc' \<longrightarrow>
      typeClassFunctions (snd (endVisit lf d st)) tc' = typeClassFunctions st tc') \<and>
   (fst (endVisit lf d st) = Inr () \<longrightarrow>
      (\<exists>tc table. typeClass st (nodeId d) = Some tc \<and>
         typeClassFunctions (snd (endVisit lf d st)) = (typeClassFunctions st)(tc \<mapsto> table))) \<and>
   ((\<forall>b. builtinClasses st b \<noteq> typeClass st (nodeId d)) \<longrightarrow>
      (\<forall>b tc'. builtinClasses st b = Some tc' \<longrightarrow>
         typeClassFunctions (snd (endVisit lf d st)) tc' = typeClassFunctions st tc')) \<and>
   operators (snd (analyze lf su st)) = operators st"
proof -
  have ops: "operators (snd (endVisit lf d st)) = operators st"
    using endVisit_frame_fields [of lf d st] by simp
  have others: "typeClassFunctions (snd (endVisit lf d st)) tc' = typeClassFunctions st tc'"
    if "typeClass st (nodeId d) \<noteq> Some tc'" for tc'
    using endVisit_typeClassFunctions [of lf d st] that by auto
  have stored: "\<exists>tc table. typeClass st (nodeId d) = Some tc \<and>
         typeClassFunctions (snd (endVisit lf d st)) = (typeClassFunctions st)(tc \<mapsto> table)"
    if "fst (endVisit lf d st) = Inr ()"
    using endVisit_typeClassFunctions [of lf d st] that by auto
  have builtin: "typeClassFunctions (snd (endVisit lf d st)) tc' = typeClassFunctions st tc'"
    if "\<forall>b. builtinClasses st b \<noteq> typeClass st (nodeId d)" "builtinClasses st b = Some tc'"
    for b tc'
  proof -
    from that have "typeClass st (nodeId d) \<noteq> Some tc'" by metis
    then show ?thesis by (rule others)
  qed
  have "operators (snd (analyze lf su st)) = operators st"
    using analyze_accept [of lf su st] accept_operators [of lf su st] by simp
  with ops others stored builtin show ?thesis by blast
qed

theorem endVisit_frame_witness:
  "typeClass bootedAnalysis (nodeId ordClass) \<noteq> Some (TypeClass 1) \<and>
   typeClassFunctions (snd (endVisit True ordClass bootedAnalysis)) (TypeClass 1) =
     typeClassFunctions bootedAnalysis (TypeClass 1) \<and>
   fst (endVisit True ordClass bootedAnalysis) = Inr () \<and>
   (\<exists>table. typeClassFunctions (snd (endVisit True ordClass bootedAnalysis)) =
      (typeClassFunctions bootedAnalysis)(TypeClass 9 \<mapsto> table)) \<and>
   (\<forall>b. builtinClasses bootedAnalysis b \<noteq> typeClass bootedAnalysis (nodeId ordClass)) \<and>
   builtinClasses bootedAnalysis BuiltinClass.Add = Some (TypeClass 2) \<and>
   typeClassFunctions (snd (endVisit True ordClass bootedAnalysis)) (TypeClass 2) =
     typeClassFunctions bootedAnalysis (TypeClass 2) \<and>
   operators (snd (endVisit True ordClass bootedAnalysis)) = operators bootedAnalysis"
proof -
  note frame = endVisit_frame [of True ordClass bootedAnalysis "[]"]
  have h1: "typeClass bootedAnalysis (nodeId ordClass) \<noteq> Some (TypeClass 1)"
    by (simp add: example_registered)
  have h2: "fst (endVisit True ordClass bootedAnalysis) = Inr ()"
    using ordClass_run by auto
  have b: "builtinClasses bootedAnalysis = Some \<circ> exampleClasses"
    unfolding bootedAnalysis_def
      TypeClassMemberRegistration_total [OF exampleAnalysis_builtinClasses]
    by (simp add: exampleAnalysis_def)
  have h3: "\<forall>b. builtinClasses bootedAnalysis b \<noteq> typeClass bootedAnalysis (nodeId ordClass)"
    by (simp add: b example_registered exampleClasses_def split: BuiltinClass.split)
  have h4: "builtinClasses bootedAnalysis BuiltinClass.Add = Some (TypeClass 2)"
    by (simp add: b exampleClasses_def)
  from frame h1 have c1: "typeClassFunctions (snd (endVisit True ordClass bootedAnalysis)) (TypeClass 1) =
     typeClassFunctions bootedAnalysis (TypeClass 1)"
    by blast
  from frame h2 obtain tc table where "typeClass bootedAnalysis (nodeId ordClass) = Some tc"
    "typeClassFunctions (snd (endVisit True ordClass bootedAnalysis)) =
      (typeClassFunctions bootedAnalysis)(tc \<mapsto> table)"
    by blast
  then have c2: "\<exists>table. typeClassFunctions (snd (endVisit True ordClass bootedAnalysis)) =
      (typeClassFunctions bootedAnalysis)(TypeClass 9 \<mapsto> table)"
    by (auto simp: example_registered)
  from frame h3 h4 have c3: "typeClassFunctions (snd (endVisit True ordClass bootedAnalysis)) (TypeClass 2) =
     typeClassFunctions bootedAnalysis (TypeClass 2)"
    by blast
  from frame have c4: "operators (snd (endVisit True ordClass bootedAnalysis)) = operators bootedAnalysis"
    by blast
  from h1 h2 h3 h4 c1 c2 c3 c4 show ?thesis by (intro conjI)
qed

lemma subNodes_functions:
  "list_all (\<lambda>n. asFunctionDefinition n \<noteq> None) ns \<Longrightarrow>
   ns = map FunctionDefinitionNode (List.map_filter asFunctionDefinition ns)"
proof (induction ns)
  case Nil
  show ?case by (simp add: map_filter_simps)
next
  case (Cons n ns)
  then show ?case
    by (cases n) (simp_all add: map_filter_simps asFunctionDefinition_def)
qed

lemma endVisit_outcome:
  assumes "registered st d"
  shows "(fst (endVisit lf d st) = Inr () \<longleftrightarrow> distinct (memberNames d)) \<and>
         (fst (endVisit lf d st) = Inl FatalError \<longleftrightarrow> \<not> distinct (memberNames d))"
proof -
  let ?fs = "List.map_filter asFunctionDefinition (subNodes d)"
  from assms obtain tc where tc: "typeClass st (nodeId d) = Some tc"
    and "list_all (\<lambda>n. asFunctionDefinition n \<noteq> None) (subNodes d)"
    by (auto simp: registered_def)
  then have fs: "subNodes d = map FunctionDefinitionNode ?fs"
    by (simp add: subNodes_functions)
  show ?thesis
  proof (cases "distinct (map name ?fs)")
    case True
    from endVisit_distinct_run [OF tc fs True, of lf] have "fst (endVisit lf d st) = Inr ()"
      by auto
    with True show ?thesis by (simp add: memberNames_def)
  next
    case False
    then obtain pre f post where "?fs = pre @ f # post" "distinct (map name pre)"
      "name f \<in> set (map name pre)"
      using not_distinct_names by blast
    with tc fs have "endVisit lf d st =
           (Inl FatalError,
            st\<lparr>numTypeVariables := numTypeVariables st + 2 * Suc (length pre),
               errors := errors st @
                 [TypeError 3195 (location f) ''Function in type class declared multiple times.'']\<rparr>)"
      by (intro endVisit_duplicate_run) simp_all
    with False show ?thesis by (simp add: memberNames_def)
  qed
qed

lemma accept_outcome:
  "registeredAll st su \<Longrightarrow>
   (fst (accept lf su st) = Inr () \<longleftrightarrow> duplicateFree su) \<and>
   (fst (accept lf su st) = Inl FatalError \<longleftrightarrow> \<not> duplicateFree su)"
proof (induction su arbitrary: st)
  case Nil
  show ?case by simp
next
  case (Cons decl su)
  show ?case
  proof (cases decl)
    case (TypeClassDefinitionNode d)
    obtain r st1 where r: "endVisit lf d st = (r, st1)"
      by (cases "endVisit lf d st")
    from Cons.prems have d: "registered st d" and su: "registeredAll st su"
      by (simp_all add: TypeClassDefinitionNode)
    from r endVisit_frame_fields [of lf d st] have "typeClass st1 = typeClass st"
      by simp
    then have "registeredAll st1 su = registeredAll st su"
      by (rule registeredAll_cong)
    with su have "registeredAll st1 su"
      by simp
    then have IH: "(fst (accept lf su st1) = Inr () \<longleftrightarrow> duplicateFree su) \<and>
        (fst (accept lf su st1) = Inl FatalError \<longleftrightarrow> \<not> duplicateFree su)"
      by (rule Cons.IH)
    from endVisit_outcome [OF d, of lf] r
    have out: "(r = Inr () \<longleftrightarrow> distinct (memberNames d)) \<and>
               (r = Inl FatalError \<longleftrightarrow> \<not> distinct (memberNames d))"
      by simp
    show ?thesis
    proof (cases r)
      case (Inl e)
      with out have "\<not> distinct (memberNames d)" and "e = FatalError"
        by auto
      with Inl r show ?thesis
        by (simp add: TypeClassDefinitionNode)
    next
      case (Inr u)
      with out have "distinct (memberNames d)"
        by simp
      with Inr r IH show ?thesis
        by (simp add: TypeClassDefinitionNode)
    qed
  next
    case OtherDeclaration
    from Cons.prems have "registeredAll st su"
      by (simp add: OtherDeclaration)
    then have "(fst (accept lf su st) = Inr () \<longleftrightarrow> duplicateFree su) \<and>
        (fst (accept lf su st) = Inl FatalError \<longleftrightarrow> \<not> duplicateFree su)"
      by (rule Cons.IH)
    then show ?thesis by (simp add: OtherDeclaration)
  qed
qed

text \<open>
  C5. \<^verbatim>\<open>analyze\<close> runs the traversal and ends in the state the traversal ends in: an
  exception of the traversal propagates, and otherwise the result is the negation of
  \<^verbatim>\<open>hasErrors\<close> on the error reporter after the traversal. The error reporter is never
  reset: its list after the run is its list before the run followed by what the
  traversal raised. For a source unit that meets the pipeline's precondition, the
  traversal raises a fatal diagnostic, which unwinds out of \<^verbatim>\<open>analyze\<close>, exactly when
  some class declares a member name twice; \<^verbatim>\<open>analyze\<close> returns true exactly when the
  error reporter has accumulated no diagnostic, none before the run and none raised by
  the traversal, and returns false exactly when no class declares a name twice and the
  error reporter held a diagnostic before the run.
\<close>

theorem analyze_reflects_sink:
  "snd (analyze lf su st) = snd (accept lf su st) \<and>
   (\<forall>e. fst (accept lf su st) = Inl e \<longrightarrow> fst (analyze lf su st) = Inl e) \<and>
   (\<forall>u. fst (accept lf su st) = Inr u \<longrightarrow>
      fst (analyze lf su st) = Inr (\<not> hasErrors (snd (accept lf su st)))) \<and>
   (\<forall>b. fst (analyze lf su st) = Inr b \<longrightarrow> b = (\<not> hasErrors (snd (analyze lf su st)))) \<and>
   (\<exists>new. errors (snd (analyze lf su st)) = errors st @ new \<and>
      (fst (analyze lf su st) = Inl FatalError \<longleftrightarrow> new \<noteq> []) \<and>
      (registeredAll st su \<longrightarrow>
         (new = [] \<longleftrightarrow> duplicateFree su) \<and>
         (fst (analyze lf su st) = Inl FatalError \<longleftrightarrow> \<not> duplicateFree su) \<and>
         (fst (analyze lf su st) = Inr True \<longleftrightarrow> errors st = [] \<and> new = []) \<and>
         (fst (analyze lf su st) = Inr True \<longleftrightarrow> errors st = [] \<and> duplicateFree su) \<and>
         (fst (analyze lf su st) = Inr False \<longleftrightarrow> errors st \<noteq> [] \<and> duplicateFree su)))"
proof -
  let ?a = "accept lf su st"
  note an = analyze_accept [of lf su st]
  from an have state: "snd (analyze lf su st) = snd ?a"
    by simp
  have thrown: "fst (analyze lf su st) = Inl e" if "fst ?a = Inl e" for e
    using an that by simp
  have returned: "fst (analyze lf su st) = Inr (\<not> hasErrors (snd ?a))" if "fst ?a = Inr u" for u
    using an that by simp
  have first: "b = (\<not> hasErrors (snd (analyze lf su st)))" if "fst (analyze lf su st) = Inr b" for b
    using an that by (cases "fst ?a") simp_all
  from accept_errors [of lf su st] consider
    (fatal) e where "fst ?a = Inl FatalError" "errors (snd ?a) = errors st @ [e]"
    | (quiet) "fst ?a \<noteq> Inl FatalError" "errors (snd ?a) = errors st"
    by blast
  then have "\<exists>new. errors (snd (analyze lf su st)) = errors st @ new \<and>
      (fst (analyze lf su st) = Inl FatalError \<longleftrightarrow> new \<noteq> []) \<and>
      (registeredAll st su \<longrightarrow>
         (new = [] \<longleftrightarrow> duplicateFree su) \<and>
         (fst (analyze lf su st) = Inl FatalError \<longleftrightarrow> \<not> duplicateFree su) \<and>
         (fst (analyze lf su st) = Inr True \<longleftrightarrow> errors st = [] \<and> new = []) \<and>
         (fst (analyze lf su st) = Inr True \<longleftrightarrow> errors st = [] \<and> duplicateFree su) \<and>
         (fst (analyze lf su st) = Inr False \<longleftrightarrow> errors st \<noteq> [] \<and> duplicateFree su))"
  proof cases
    case fatal
    have "\<not> duplicateFree su" if "registeredAll st su"
      using accept_outcome [OF that, of lf] fatal by simp
    with an fatal have "errors (snd (analyze lf su st)) = errors st @ [e] \<and>
      (fst (analyze lf su st) = Inl FatalError \<longleftrightarrow> [e] \<noteq> []) \<and>
      (registeredAll st su \<longrightarrow>
         ([e] = [] \<longleftrightarrow> duplicateFree su) \<and>
         (fst (analyze lf su st) = Inl FatalError \<longleftrightarrow> \<not> duplicateFree su) \<and>
         (fst (analyze lf su st) = Inr True \<longleftrightarrow> errors st = [] \<and> [e] = []) \<and>
         (fst (analyze lf su st) = Inr True \<longleftrightarrow> errors st = [] \<and> duplicateFree su) \<and>
         (fst (analyze lf su st) = Inr False \<longleftrightarrow> errors st \<noteq> [] \<and> duplicateFree su))"
      by simp
    then show ?thesis by (intro exI)
  next
    case quiet
    have nofatal: "fst (analyze lf su st) \<noteq> Inl FatalError"
      using an quiet by (cases "fst ?a") simp_all
    have reg: "duplicateFree su \<and> fst (analyze lf su st) = Inr (errors st = [])"
      if "registeredAll st su"
    proof -
      from accept_outcome [OF that, of lf] quiet have "duplicateFree su" and "fst ?a = Inr ()"
        by auto
      with an quiet show ?thesis by (simp add: hasErrors_def)
    qed
    have "errors (snd (analyze lf su st)) = errors st @ [] \<and>
      (fst (analyze lf su st) = Inl FatalError \<longleftrightarrow> [] \<noteq> ([] :: Error list)) \<and>
      (registeredAll st su \<longrightarrow>
         (([] :: Error list) = [] \<longleftrightarrow> duplicateFree su) \<and>
         (fst (analyze lf su st) = Inl FatalError \<longleftrightarrow> \<not> duplicateFree su) \<and>
         (fst (analyze lf su st) = Inr True \<longleftrightarrow> errors st = [] \<and> [] = ([] :: Error list)) \<and>
         (fst (analyze lf su st) = Inr True \<longleftrightarrow> errors st = [] \<and> duplicateFree su) \<and>
         (fst (analyze lf su st) = Inr False \<longleftrightarrow> errors st \<noteq> [] \<and> duplicateFree su))"
      using an quiet nofatal reg by auto
    then show ?thesis by (intro exI)
  qed
  with state thrown returned first show ?thesis by blast
qed

theorem analyze_reflects_sink_witness:
  "registeredAll bootedAnalysis [TypeClassDefinitionNode ordClass] \<and>
   duplicateFree [TypeClassDefinitionNode ordClass] \<and>
   fst (accept True [TypeClassDefinitionNode ordClass] bootedAnalysis) = Inr () \<and>
   fst (analyze True [TypeClassDefinitionNode ordClass] bootedAnalysis) = Inr True \<and>
   \<not> hasErrors (snd (analyze True [TypeClassDefinitionNode ordClass] bootedAnalysis)) \<and>
   registeredAll bootedAnalysis [TypeClassDefinitionNode showClass] \<and>
   \<not> duplicateFree [TypeClassDefinitionNode showClass] \<and>
   fst (accept True [TypeClassDefinitionNode showClass] bootedAnalysis) = Inl FatalError \<and>
   fst (analyze True [TypeClassDefinitionNode showClass] bootedAnalysis) = Inl FatalError \<and>
   errors (snd (analyze True [TypeClassDefinitionNode showClass] bootedAnalysis)) \<noteq> [] \<and>
   registeredAll (bootedAnalysis\<lparr>errors := [TypeError 1 (SourceLocation 0 0) ''earlier'']\<rparr>)
     [TypeClassDefinitionNode ordClass] \<and>
   fst (analyze True [TypeClassDefinitionNode ordClass]
          (bootedAnalysis\<lparr>errors := [TypeError 1 (SourceLocation 0 0) ''earlier'']\<rparr>)) = Inr False"
proof -
  let ?ord = "[TypeClassDefinitionNode ordClass]"
  let ?show = "[TypeClassDefinitionNode showClass]"
  let ?late = "bootedAnalysis\<lparr>errors := [TypeError 1 (SourceLocation 0 0) ''earlier'']\<rparr>"
  have ro: "registeredAll bootedAnalysis ?ord"
    by (simp add: registered_def example_registered) (simp add: ordClass_def asFunctionDefinition_def)
  have rs: "registeredAll bootedAnalysis ?show"
    by (simp add: registered_def example_registered) (simp add: showClass_def asFunctionDefinition_def)
  have rl: "registeredAll ?late ?ord"
    using ro registeredAll_cong [of ?late bootedAnalysis ?ord] by simp
  have fo: "duplicateFree ?ord"
    by (simp add: memberNames_def ordClass_def map_filter_simps asFunctionDefinition_def)
  have fs: "\<not> duplicateFree ?show"
    by (simp add: memberNames_def showClass_def map_filter_simps asFunctionDefinition_def)
  have clean: "errors bootedAnalysis = []" and late: "errors ?late \<noteq> []"
    by (simp_all add: bootedAnalysis_fields)
  from analyze_reflects_sink [of True ?ord bootedAnalysis] ro fo clean
  have o1: "fst (analyze True ?ord bootedAnalysis) = Inr True"
    by blast
  with analyze_reflects_sink [of True ?ord bootedAnalysis]
  have o2: "\<not> hasErrors (snd (analyze True ?ord bootedAnalysis))"
    by blast
  have o3: "fst (accept True ?ord bootedAnalysis) = Inr ()"
  proof (cases "fst (accept True ?ord bootedAnalysis)")
    case (Inl e)
    with analyze_reflects_sink [of True ?ord bootedAnalysis]
    have "fst (analyze True ?ord bootedAnalysis) = Inl e"
      by blast
    with o1 show ?thesis by simp
  next
    case (Inr u)
    then show ?thesis by simp
  qed
  from analyze_reflects_sink [of True ?show bootedAnalysis] rs fs
  have s1: "fst (analyze True ?show bootedAnalysis) = Inl FatalError"
    by blast
  with analyze_reflects_sink [of True ?show bootedAnalysis]
  have s2: "errors (snd (analyze True ?show bootedAnalysis)) \<noteq> []"
    by auto
  have s3: "fst (accept True ?show bootedAnalysis) = Inl FatalError"
  proof (cases "fst (accept True ?show bootedAnalysis)")
    case (Inl e)
    with analyze_reflects_sink [of True ?show bootedAnalysis]
    have "fst (analyze True ?show bootedAnalysis) = Inl e"
      by blast
    with s1 Inl show ?thesis by simp
  next
    case (Inr u)
    with analyze_reflects_sink [of True ?show bootedAnalysis]
    have "fst (analyze True ?show bootedAnalysis) =
        Inr (\<not> hasErrors (snd (accept True ?show bootedAnalysis)))"
      by blast
    with s1 show ?thesis by simp
  qed
  from analyze_reflects_sink [of True ?ord ?late] rl fo late
  have l1: "fst (analyze True ?ord ?late) = Inr False"
    by blast
  from ro fo o3 o1 o2 rs fs s3 s1 s2 rl l1 show ?thesis
    by (intro conjI)
qed

end
